theory Spec2Isabelle
  imports Complex_Main
begin

section \<open>Exam portal (ExamPortal component)\<close>

text \<open>
  JavaScript numbers that the portal only stores and displays (score, duration,
  \<^verbatim>\<open>Date.now()\<close>) are modelled as reals and integers; no arithmetic is done on them here.
\<close>

datatype submission_status = Completed | Blocked

text \<open>
  Modelled from the spec: the declarations of \<^verbatim>\<open>Exam\<close> and \<^verbatim>\<open>ExamSubmission\<close> live in
  \<^verbatim>\<open>../types\<close>, which is not among the sources. The fields are the ones the component reads
  (\<^verbatim>\<open>exam.id\<close>, \<^verbatim>\<open>title\<close>, \<^verbatim>\<open>subject\<close>, \<^verbatim>\<open>questions\<close>, \<^verbatim>\<open>durationMinutes\<close>) and the ones listed in
  section 3 of the specification. \<^verbatim>\<open>questions\<close> may be undefined (the component reads it
  with \<^verbatim>\<open>?.\<close>), hence the option. The field \<^verbatim>\<open>id\<close> is named \<open>exam_id\<close> here.
\<close>

record 'q Exam =
  exam_id :: string
  title :: string
  subject :: string
  questions :: "'q list option"
  durationMinutes :: real

text \<open>
  \<^verbatim>\<open>Omit<ExamSubmission, 'id' | 'score' | 'studentName'>\<close>: what \<^verbatim>\<open>onSubmitExam\<close> receives.
  The status type \<^verbatim>\<open>'Completed' | 'Blocked'\<close> is the one written in \<^verbatim>\<open>handleSubmit\<close>.
\<close>

record SubmissionDraft =
  examId :: string
  studentId :: string
  answers :: "string \<rightharpoonup> string"
  submittedAt :: int
  status :: submission_status

record ExamSubmission = SubmissionDraft +
  submission_id :: string
  score :: real
  studentName :: string

text \<open>
  The component state is the \<^verbatim>\<open>takingExam\<close> hook; the calls made to the host callback
  \<^verbatim>\<open>onSubmitExam\<close> are kept in a log, oldest first.
\<close>

record 'q portal_state =
  takingExam :: "'q Exam option"
  onSubmitExam_calls :: "SubmissionDraft list"

definition initial_portal :: "'q portal_state" where
  "initial_portal = \<lparr>takingExam = None, onSubmitExam_calls = []\<rparr>"

text \<open>
  \<^verbatim>\<open>new Map(submissions.map(s => [s.examId, s]))\<close>: the constructor inserts the pairs in
  order, so a later submission for the same exam replaces an earlier one.
\<close>

definition studentSubmissionsMap :: "ExamSubmission list \<Rightarrow> (string \<rightharpoonup> ExamSubmission)" where
  "studentSubmissionsMap submissions = foldl (\<lambda>m s. m(examId s \<mapsto> s)) Map.empty submissions"

text \<open>\<^verbatim>\<open>setTakingExam(exam)\<close>, the click handler of the Take Exam button, and
  \<^verbatim>\<open>setTakingExam(null)\<close>, the handler of Go Back and of the exam taker's close.\<close>

definition startExam :: "'q Exam \<Rightarrow> 'q portal_state \<Rightarrow> 'q portal_state" where
  "startExam exam st = st\<lparr>takingExam := Some exam\<rparr>"

definition cancel :: "'q portal_state \<Rightarrow> 'q portal_state" where
  "cancel st = st\<lparr>takingExam := None\<rparr>"

text \<open>
  \<^verbatim>\<open>handleSubmit(answers, status)\<close>. Every render makes the handler anew, and the handler
  closes over the prop \<^verbatim>\<open>studentId\<close> and over the constant \<^verbatim>\<open>takingExam\<close> of its render
  (l.14, 19-20): its guard and the record it emits read that constant, not the current
  state of the hook. The constant is the argument \<open>rendered\<close>; \<open>now\<close> is the value of
  \<^verbatim>\<open>Date.now()\<close>. The host callback \<^verbatim>\<open>onSubmitExam\<close> is taken to return normally.
\<close>

definition handleSubmit ::
  "string \<Rightarrow> 'q Exam option \<Rightarrow> int \<Rightarrow> (string \<rightharpoonup> string) \<Rightarrow> submission_status
     \<Rightarrow> 'q portal_state \<Rightarrow> 'q portal_state" where
  "handleSubmit student rendered now ans stat st =
     (case rendered of
        None \<Rightarrow> st
      | Some exam \<Rightarrow>
          st\<lparr>onSubmitExam_calls := onSubmitExam_calls st @
                [\<lparr>examId = exam_id exam, studentId = student, answers = ans,
                  submittedAt = now, status = stat\<rparr>],
             takingExam := None\<rparr>)"

text \<open>The handler that the render of the state \<open>st\<close> makes, and passes to the exam taker
  when it shows one (l.44).\<close>

definition rendered_handleSubmit ::
  "string \<Rightarrow> 'q portal_state \<Rightarrow> int \<Rightarrow> (string \<rightharpoonup> string) \<Rightarrow> submission_status
     \<Rightarrow> 'q portal_state \<Rightarrow> 'q portal_state" where
  "rendered_handleSubmit student st = handleSubmit student (takingExam st)"

text \<open>
  What the component returns. A card of the catalogue carries what the JSX shows: the
  red border (\<open>isBlocked\<close>), title, subject, question count, duration, and either the
  result panel (label and score) or the Take Exam button, whose click starts that exam.
\<close>

datatype 'q card_action = TakeExamButton "'q Exam" | ResultPanel string real

record 'q exam_card =
  card_key :: string
  delay :: nat
  isBlocked :: bool
  card_title :: string
  card_subject :: string
  questionCount :: nat
  card_duration :: real
  action :: "'q card_action"

datatype 'q portal_view =
    ExamBlockedMessage
  | ExamTakerView "'q Exam"
  | ExamCatalog "'q exam_card list"
  | NoExamsAvailable

definition exam_card_of :: "(string \<rightharpoonup> ExamSubmission) \<Rightarrow> nat \<Rightarrow> 'q Exam \<Rightarrow> 'q exam_card" where
  "exam_card_of m index exam =
     (let submission = m (exam_id exam);
          blocked = (case submission of None \<Rightarrow> False | Some s \<Rightarrow> status s = Blocked)
      in \<lparr>card_key = exam_id exam,
          delay = index * 100,
          isBlocked = blocked,
          card_title = title exam,
          card_subject = subject exam,
          questionCount = (case questions exam of None \<Rightarrow> 0 | Some qs \<Rightarrow> length qs),
          card_duration = durationMinutes exam,
          action = (case submission of
                      Some s \<Rightarrow> ResultPanel (if blocked then ''Blocked'' else ''Completed'') (score s)
                    | None \<Rightarrow> TakeExamButton exam)\<rparr>)"

definition ExamPortal :: "'q Exam list \<Rightarrow> ExamSubmission list \<Rightarrow> 'q portal_state \<Rightarrow> 'q portal_view" where
  "ExamPortal exams submissions st =
     (let m = studentSubmissionsMap submissions in
      case takingExam st of
        Some exam \<Rightarrow>
          (case m (exam_id exam) of
             Some existingSubmission \<Rightarrow>
               if status existingSubmission = Blocked then ExamBlockedMessage
               else ExamTakerView exam
           | None \<Rightarrow> ExamTakerView exam)
      | None \<Rightarrow>
          if length exams > 0
          then ExamCatalog (map (\<lambda>(index, exam). exam_card_of m index exam) (enumerate 0 exams))
          else NoExamsAvailable)"

section \<open>QR scan session (QRCodeScanner component)\<close>

text \<open>
  Values of the JavaScript runtime, as far as \<^verbatim>\<open>JSON.parse\<close> can produce them, and
  \<^verbatim>\<open>undefined\<close>, which reading an absent property gives. A number is the real value of
  a finite IEEE double (infinities, which \<^verbatim>\<open>JSON.parse\<close> gives only for literals beyond
  the double range, are outside the model). An object is the list of its own properties.
\<close>

datatype js_value =
    JUndefined
  | JNull
  | JBool bool
  | JNum real
  | JStr string
  | JArr "js_value list"
  | JObj "(string \<times> js_value) list"

datatype js_exn =
    InvalidCharacterError
  | SyntaxError
  | TypeError
  | Error string
  | RemoteError string

text \<open>
  The platform functions the scanner calls are parameters of the model: \<^verbatim>\<open>atob\<close> (throws on
  text that is not base64), \<^verbatim>\<open>JSON.parse\<close> (throws on text that is not JSON), and the
  conversion to a number that the operator \<^verbatim>\<open>-\<close> applies to a string, an array or an
  object (which may give NaN, here \<open>None\<close>, or throw).
\<close>

record js_runtime =
  atob :: "string \<Rightarrow> js_exn + string"
  JSON_parse :: "string \<Rightarrow> js_exn + js_value"
  ToNumber :: "js_value \<Rightarrow> js_exn + real option"

text \<open>The truth value of a JavaScript value, as \<^verbatim>\<open>!\<close> and \<^verbatim>\<open>if\<close> take it.\<close>

fun truthy :: "js_value \<Rightarrow> bool" where
  "truthy JUndefined = False"
| "truthy JNull = False"
| "truthy (JBool b) = b"
| "truthy (JNum n) = (n \<noteq> 0)"
| "truthy (JStr s) = (s \<noteq> [])"
| "truthy (JArr xs) = True"
| "truthy (JObj kvs) = True"

text \<open>
  Reading the property \<^verbatim>\<open>studentId\<close> or \<^verbatim>\<open>timestamp\<close> in the destructuring
  \<^verbatim>\<open>const { studentId, timestamp } = decodedData\<close>: a TypeError on \<^verbatim>\<open>null\<close> and
  \<^verbatim>\<open>undefined\<close>, the own property of an object, and \<^verbatim>\<open>undefined\<close> otherwise (booleans,
  numbers, strings and arrays have no property of either name).
\<close>

fun payloadField :: "js_value \<Rightarrow> string \<Rightarrow> js_exn + js_value" where
  "payloadField JUndefined k = Inl TypeError"
| "payloadField JNull k = Inl TypeError"
| "payloadField (JObj kvs) k = Inr (case map_of kvs k of None \<Rightarrow> JUndefined | Some v \<Rightarrow> v)"
| "payloadField v k = Inr JUndefined"

text \<open>
  Arithmetic on numbers is IEEE double arithmetic: the exact result, rounded to the
  nearest double, ties to the even mantissa. \<open>round_double\<close> is that rounding for
  results within the double range: a double in the binade of exponent \<open>e\<close> is a multiple
  of \<open>2 powr (e - 52)\<close>, and below the exponent \<open>- 1022\<close> the spacing stays that of
  \<open>- 1022\<close> (the subnormal numbers).
\<close>

definition round_ties_even :: "real \<Rightarrow> int" where
  "round_ties_even y =
     (let f = \<lfloor>y\<rfloor>; r = y - of_int f
      in if r < 1 / 2 then f else if 1 / 2 < r then f + 1 else if even f then f else f + 1)"

definition double_exponent :: "real \<Rightarrow> int" where
  "double_exponent x = max (- 1022) \<lfloor>log 2 \<bar>x\<bar>\<rfloor>"

definition double_ulp :: "real \<Rightarrow> real" where
  "double_ulp x = 2 powr (of_int (double_exponent x) - 52)"

definition round_double :: "real \<Rightarrow> real" where
  "round_double x =
     (if x = 0 then 0 else double_ulp x * of_int (round_ties_even (x / double_ulp x)))"

text \<open>The number that \<^verbatim>\<open>Date.now() - timestamp\<close> takes for its right operand.\<close>

fun operandNumber :: "js_runtime \<Rightarrow> js_value \<Rightarrow> js_exn + real option" where
  "operandNumber rt JUndefined = Inr None"
| "operandNumber rt JNull = Inr (Some 0)"
| "operandNumber rt (JBool b) = Inr (Some (if b then 1 else 0))"
| "operandNumber rt (JNum n) = Inr (Some n)"
| "operandNumber rt v = ToNumber rt v"

text \<open>
  A runtime whose three functions give the same outcome on every argument; the examples
  below use it to fix what one scanned text decodes to.
\<close>

definition constant_runtime ::
  "(js_exn + string) \<Rightarrow> (js_exn + js_value) \<Rightarrow> (js_exn + real option) \<Rightarrow> js_runtime" where
  "constant_runtime decoded parsed number =
     \<lparr>atob = (\<lambda>s. decoded), JSON_parse = (\<lambda>s. parsed), ToNumber = (\<lambda>v. number)\<rparr>"

datatype scan_result = ScanError string

definition invalid_format_message :: string where
  "invalid_format_message = ''Invalid or unreadable QR code format.''"

definition expired_message :: string where
  "expired_message = ''Expired QR Code. Please ask the student to generate a new one.''"

definition camera_message :: string where
  "camera_message = ''Could not start camera. Please check permissions.''"

text \<open>
  The calls made on scanner objects of the scanning library, oldest first. \<open>New h\<close> is
  \<^verbatim>\<open>new Html5Qrcode(...)\<close> giving the object \<open>h\<close>; \<open>Start h\<close> is the call that opens the
  camera, \<open>Stop h\<close> the call that releases it.

  The state of the component: the hook \<open>scanResult\<close>, the two refs, the number of scanner
  objects made so far, the two logs, and whether the latest run of the effect returned
  its cleanup function (\<open>effect_cleanup\<close>).
\<close>

datatype scanner_call = New nat | Start nat | Pause nat | Resume nat | Stop nat

record scanner_state =
  scanResult :: "scan_result option"
  scannerRef :: "nat option"
  readerRef :: bool
  instances :: nat
  scanner_calls :: "scanner_call list"
  onScanSuccess_calls :: "js_value list"
  effect_cleanup :: bool

definition initial_scanner :: scanner_state where
  "initial_scanner =
     \<lparr>scanResult = None, scannerRef = None, readerRef = True, instances = 0,
      scanner_calls = [], onScanSuccess_calls = [], effect_cleanup = False\<rparr>"

text \<open>
  The body of the effect (l.112-157). At its guard it returns nothing, so that run leaves
  no cleanup; past the guard it makes a scanner object, stores it in \<open>scannerRef\<close>,
  starts it and returns the cleanup. \<open>start_ok\<close> tells whether the promise of
  \<^verbatim>\<open>start\<close> is fulfilled or rejected.
\<close>

definition scannerEffect :: "bool \<Rightarrow> scanner_state \<Rightarrow> scanner_state" where
  "scannerEffect start_ok st =
     (if \<not> readerRef st \<or> scannerRef st \<noteq> None then st\<lparr>effect_cleanup := False\<rparr>
      else
        let h = instances st;
            st1 = st\<lparr>instances := Suc h, scannerRef := Some h,
                     scanner_calls := scanner_calls st @ [New h, Start h],
                     effect_cleanup := True\<rparr>
        in if start_ok then st1 else st1\<lparr>scanResult := Some (ScanError camera_message)\<rparr>)"

text \<open>
  The cleanup that the effect returns (l.152-157). \<open>isScanning\<close> is what the property
  \<^verbatim>\<open>isScanning\<close> of the scanner object answers at that moment; with no scanner object
  \<^verbatim>\<open>scannerRef.current?.isScanning\<close> is undefined and nothing is done.
\<close>

definition scannerCleanup :: "bool \<Rightarrow> scanner_state \<Rightarrow> scanner_state" where
  "scannerCleanup isScanning st =
     (case scannerRef st of
        None \<Rightarrow> st
      | Some h \<Rightarrow>
          if isScanning
          then st\<lparr>scanner_calls := scanner_calls st @ [Stop h], scannerRef := None\<rparr>
          else st)"

text \<open>
  The effect depends on \<^verbatim>\<open>onScanSuccess\<close> and \<^verbatim>\<open>scanResult\<close> (l.158). After a render in
  which one of them has changed, the cleanup that the latest run of the effect returned,
  if there is one, is run, and then the body of the effect again.
\<close>

definition effect_rerun :: "bool \<Rightarrow> bool \<Rightarrow> scanner_state \<Rightarrow> scanner_state" where
  "effect_rerun isScanning start_ok st =
     scannerEffect start_ok (if effect_cleanup st then scannerCleanup isScanning st else st)"

text \<open>
  The \<^verbatim>\<open>try\<close> block of the decode callback: it throws, or returns after reporting an
  expired code, or calls \<^verbatim>\<open>onScanSuccess\<close>. \<open>now\<close> is the value of \<^verbatim>\<open>Date.now()\<close>, an
  integer. The subtraction and the division each give the double nearest to the exact
  result, and \<^verbatim>\<open>NaN > 60\<close> is false.
\<close>

datatype scan_verdict = Expired | Accepted js_value

definition scan_try_block :: "js_runtime \<Rightarrow> int \<Rightarrow> string \<Rightarrow> js_exn + scan_verdict" where
  "scan_try_block rt now decodedText =
     (case atob rt decodedText of
        Inl e \<Rightarrow> Inl e
      | Inr binary \<Rightarrow>
     (case JSON_parse rt binary of
        Inl e \<Rightarrow> Inl e
      | Inr decodedData \<Rightarrow>
     (case payloadField decodedData ''studentId'' of
        Inl e \<Rightarrow> Inl e
      | Inr sid \<Rightarrow>
     (case payloadField decodedData ''timestamp'' of
        Inl e \<Rightarrow> Inl e
      | Inr timestamp \<Rightarrow>
          if \<not> truthy sid \<or> \<not> truthy timestamp then Inl (Error ''Invalid QR code data.'')
          else
            (case operandNumber rt timestamp of
               Inl e \<Rightarrow> Inl e
             | Inr None \<Rightarrow> Inr (Accepted sid)
             | Inr (Some t) \<Rightarrow>
                 let timeDiffSeconds = round_double (round_double (real_of_int now - t) / 1000)
                 in if timeDiffSeconds > 60 then Inr Expired else Inr (Accepted sid))))))"

text \<open>
  The decode callback. \<^verbatim>\<open>scannerRef.current.pause()\<close> is outside the \<^verbatim>\<open>try\<close> block and
  is not guarded by \<^verbatim>\<open>?.\<close>, so with no scanner object the callback itself throws. The
  host callback \<^verbatim>\<open>onScanSuccess\<close> is taken to return normally; its calls are logged.

  The callback closes over the \<^verbatim>\<open>scanResult\<close> of the render in which the effect
  registered it. The model reads the current \<open>scanResult\<close> of the state instead; the
  properties below are stated for a session that shows no error, which is also what the
  callback registered at the start of the session has closed over.
\<close>

definition qrCodeSuccessCallback ::
  "js_runtime \<Rightarrow> int \<Rightarrow> string \<Rightarrow> scanner_state \<Rightarrow> js_exn + scanner_state" where
  "qrCodeSuccessCallback rt now decodedText st =
     (if scanResult st \<noteq> None then Inr st
      else
        (case scannerRef st of
           None \<Rightarrow> Inl TypeError
         | Some h \<Rightarrow>
             let st1 = st\<lparr>scanner_calls := scanner_calls st @ [Pause h]\<rparr> in
             (case scan_try_block rt now decodedText of
                Inr (Accepted sid) \<Rightarrow>
                  Inr (st1\<lparr>onScanSuccess_calls := onScanSuccess_calls st1 @ [sid]\<rparr>)
              | Inr Expired \<Rightarrow> Inr (st1\<lparr>scanResult := Some (ScanError expired_message)\<rparr>)
              | Inl e \<Rightarrow> Inr (st1\<lparr>scanResult := Some (ScanError invalid_format_message)\<rparr>))))"

text \<open>
  \<^verbatim>\<open>handleRetry\<close>: \<^verbatim>\<open>setScanResult(null)\<close>, then \<^verbatim>\<open>scannerRef.current?.resume()\<close>. As
  \<open>scanResult\<close> changes from an error to \<^verbatim>\<open>null\<close>, the effect is run again after the
  handler (\<open>effect_rerun\<close>).
\<close>

definition handleRetry :: "scanner_state \<Rightarrow> scanner_state" where
  "handleRetry st =
     (let st1 = st\<lparr>scanResult := None\<rparr> in
      case scannerRef st1 of
        None \<Rightarrow> st1
      | Some h \<Rightarrow> st1\<lparr>scanner_calls := scanner_calls st1 @ [Resume h]\<rparr>)"

section \<open>AI advisory service (geminiService)\<close>

text \<open>
  The reply of the hosted model: its \<^verbatim>\<open>text\<close> property, which may be undefined. The
  remote call is a parameter that fails with an exception (network or API error) or
  gives a reply.
\<close>

record model_response =
  response_text :: "string option"

text \<open>
  The six structured operations share one shape: prepare the prompt and the schema from
  the input, await \<^verbatim>\<open>ai.models.generateContent\<close>, then
  \<^verbatim>\<open>JSON.parse(response.text.trim())\<close>, all inside \<^verbatim>\<open>try\<close>; the \<^verbatim>\<open>catch\<close> returns
  \<^verbatim>\<open>null\<close>. The preparation is a parameter (it can throw, for instance on a student record
  without \<^verbatim>\<open>attendance\<close>), and so are the remote call and the platform functions
  \<^verbatim>\<open>String.prototype.trim\<close> and \<^verbatim>\<open>JSON.parse\<close>; reading \<^verbatim>\<open>.trim\<close> of an undefined text
  is a TypeError.
\<close>

definition advisory_try_block ::
  "('i \<Rightarrow> js_exn + 'r) \<Rightarrow> ('r \<Rightarrow> js_exn + model_response) \<Rightarrow> (string \<Rightarrow> string)
     \<Rightarrow> (string \<Rightarrow> js_exn + js_value) \<Rightarrow> 'i \<Rightarrow> js_exn + js_value" where
  "advisory_try_block prepare generateContent trim parse input =
     (case prepare input of
        Inl e \<Rightarrow> Inl e
      | Inr request \<Rightarrow>
     (case generateContent request of
        Inl e \<Rightarrow> Inl e
      | Inr response \<Rightarrow>
     (case response_text response of
        None \<Rightarrow> Inl TypeError
      | Some t \<Rightarrow> parse (trim t))))"

definition catch_return_null :: "js_exn + js_value \<Rightarrow> js_exn + js_value" where
  "catch_return_null body = (case body of Inl e \<Rightarrow> Inr JNull | Inr v \<Rightarrow> Inr v)"

definition generatePersonalizedLearningPath ::
  "('i \<Rightarrow> js_exn + 'r) \<Rightarrow> ('r \<Rightarrow> js_exn + model_response) \<Rightarrow> (string \<Rightarrow> string)
     \<Rightarrow> (string \<Rightarrow> js_exn + js_value) \<Rightarrow> 'i \<Rightarrow> js_exn + js_value" where
  "generatePersonalizedLearningPath prepare generateContent trim parse student =
     catch_return_null (advisory_try_block prepare generateContent trim parse student)"

definition generateStudentInitiatedLearningPath ::
  "('f \<times> string \<Rightarrow> js_exn + 'r) \<Rightarrow> ('r \<Rightarrow> js_exn + model_response) \<Rightarrow> (string \<Rightarrow> string)
     \<Rightarrow> (string \<Rightarrow> js_exn + js_value) \<Rightarrow> 'f \<Rightarrow> string \<Rightarrow> js_exn + js_value" where
  "generateStudentInitiatedLearningPath prepare generateContent trim parse formData student_name =
     catch_return_null
       (advisory_try_block prepare generateContent trim parse (formData, student_name))"

definition predictStudentPerformance ::
  "('i \<Rightarrow> js_exn + 'r) \<Rightarrow> ('r \<Rightarrow> js_exn + model_response) \<Rightarrow> (string \<Rightarrow> string)
     \<Rightarrow> (string \<Rightarrow> js_exn + js_value) \<Rightarrow> 'i \<Rightarrow> js_exn + js_value" where
  "predictStudentPerformance prepare generateContent trim parse student =
     catch_return_null (advisory_try_block prepare generateContent trim parse student)"

definition generateProgressInsights ::
  "('p \<times> string \<Rightarrow> js_exn + 'r) \<Rightarrow> ('r \<Rightarrow> js_exn + model_response) \<Rightarrow> (string \<Rightarrow> string)
     \<Rightarrow> (string \<Rightarrow> js_exn + js_value) \<Rightarrow> 'p \<Rightarrow> string \<Rightarrow> js_exn + js_value" where
  "generateProgressInsights prepare generateContent trim parse progressData student_name =
     catch_return_null
       (advisory_try_block prepare generateContent trim parse (progressData, student_name))"

definition generateActivitySuggestions ::
  "('i \<Rightarrow> js_exn + 'r) \<Rightarrow> ('r \<Rightarrow> js_exn + model_response) \<Rightarrow> (string \<Rightarrow> string)
     \<Rightarrow> (string \<Rightarrow> js_exn + js_value) \<Rightarrow> 'i \<Rightarrow> js_exn + js_value" where
  "generateActivitySuggestions prepare generateContent trim parse student =
     catch_return_null (advisory_try_block prepare generateContent trim parse student)"

definition verifyFaceMatch ::
  "(string \<times> string \<Rightarrow> js_exn + 'r) \<Rightarrow> ('r \<Rightarrow> js_exn + model_response) \<Rightarrow> (string \<Rightarrow> string)
     \<Rightarrow> (string \<Rightarrow> js_exn + js_value) \<Rightarrow> string \<Rightarrow> string \<Rightarrow> js_exn + js_value" where
  "verifyFaceMatch prepare generateContent trim parse registeredImageBase64 liveImageBase64 =
     catch_return_null
       (advisory_try_block prepare generateContent trim parse
          (registeredImageBase64, liveImageBase64))"

text \<open>
  For the examples: a remote call that always fails, one that always replies with a
  given text or without text, a trimming function that strips the blanks U+0020 at both
  ends, and a parser that knows the one JSON text \<open>true\<close>.
\<close>

definition failing_remote :: "'r \<Rightarrow> js_exn + model_response" where
  "failing_remote request = Inl (RemoteError ''network'')"

definition replying_remote :: "string option \<Rightarrow> 'r \<Rightarrow> js_exn + model_response" where
  "replying_remote t request = Inr \<lparr>response_text = t\<rparr>"

definition trim_blanks :: "string \<Rightarrow> string" where
  "trim_blanks s = rev (dropWhile (\<lambda>c. c = CHR 0x20) (rev (dropWhile (\<lambda>c. c = CHR 0x20) s)))"

definition parse_true :: "string \<Rightarrow> js_exn + js_value" where
  "parse_true t = (if t = ''true'' then Inr (JBool True) else Inl SyntaxError)"

subsection \<open>Chat\<close>

text \<open>
  Modelled from the spec: \<^verbatim>\<open>ChatMessage\<close> is declared in \<^verbatim>\<open>../types\<close>, which is not among
  the sources; the fields are the two the service reads, \<^verbatim>\<open>sender\<close> and \<^verbatim>\<open>text\<close> (here
  \<open>message_text\<close>).
\<close>

record ChatMessage =
  sender :: string
  message_text :: string

text \<open>
  A chat session object made by \<^verbatim>\<open>ai.chats.create\<close>: its identity (the number of
  sessions made before it), the language and the context from which its system
  instruction is written, and the history it starts from, as (role, text) pairs. The
  wording of the instruction is not modelled.
\<close>

record Chat =
  chat_id :: nat
  instruction_lang :: string
  instruction_context :: string
  initial_history :: "(string \<times> string) list"

text \<open>
  The module state: the cache \<^verbatim>\<open>chatHistories\<close>, the number of sessions made so far, and
  the log of \<^verbatim>\<open>chat.sendMessage\<close> calls as (session, prompt) pairs, oldest first.
\<close>

record chat_service =
  chatHistories :: "string \<rightharpoonup> Chat"
  chats_created :: nat
  sendMessage_calls :: "(nat \<times> string) list"

definition initial_chat_service :: chat_service where
  "initial_chat_service = \<lparr>chatHistories = Map.empty, chats_created = 0, sendMessage_calls = []\<rparr>"

definition historyKey :: "string \<Rightarrow> string \<Rightarrow> string" where
  "historyKey lang ctxt = ''chat-session-'' @ lang @ ''-'' @ take 20 ctxt"

definition no_response_message :: string where
  "no_response_message =
     ''I'' @ [CHR 0x27] @ ''m sorry, I couldn'' @ [CHR 0x27] @ ''t generate a response. Please try again.''"

definition trouble_message :: string where
  "trouble_message =
     ''Sorry, I'' @ [CHR 0x27] @
     ''m having trouble connecting to my brain right now. Please try again later.''"

text \<open>
  \<^verbatim>\<open>getChatbotResponse\<close>, in two parts: \<open>chat_session\<close> looks the session up in the
  cache and makes and stores one when there is none; then the message is sent on that
  session. The session is stored before the message is sent, so it stays in the cache
  when the sending fails. \<open>sendMessage\<close> is the remote call. The whole body is inside
  \<^verbatim>\<open>try\<close>, and the \<^verbatim>\<open>catch\<close> returns the string \<open>trouble_message\<close>.
\<close>

definition chat_session ::
  "ChatMessage list \<Rightarrow> string \<Rightarrow> string \<Rightarrow> chat_service \<Rightarrow> Chat \<times> chat_service" where
  "chat_session history ctxt lang st =
     (case chatHistories st (historyKey lang ctxt) of
        Some chat \<Rightarrow> (chat, st)
      | None \<Rightarrow>
          let chat = \<lparr>chat_id = chats_created st,
                      instruction_lang = lang,
                      instruction_context = ctxt,
                      initial_history =
                        map (\<lambda>msg. (if sender msg = ''user'' then ''user'' else ''model'',
                                     message_text msg)) history\<rparr>
          in (chat, st\<lparr>chats_created := Suc (chats_created st),
                       chatHistories := (chatHistories st)(historyKey lang ctxt \<mapsto> chat)\<rparr>))"

definition getChatbotResponse ::
  "(Chat \<Rightarrow> string \<Rightarrow> js_exn + model_response) \<Rightarrow> string \<Rightarrow> ChatMessage list \<Rightarrow> string \<Rightarrow> string
     \<Rightarrow> chat_service \<Rightarrow> (js_exn + js_value) \<times> chat_service" where
  "getChatbotResponse sendMessage prompt history ctxt lang st =
     (let (chat, st1) = chat_session history ctxt lang st;
          st2 = st1\<lparr>sendMessage_calls := sendMessage_calls st1 @ [(chat_id chat, prompt)]\<rparr>
      in (case sendMessage chat prompt of
            Inl e \<Rightarrow> Inr (JStr trouble_message)
          | Inr result \<Rightarrow>
              (case response_text result of
                 None \<Rightarrow> Inr (JStr no_response_message)
               | Some responseText \<Rightarrow>
                   if responseText = [] then Inr (JStr no_response_message)
                   else Inr (JStr responseText)),
          st2))"

text \<open>
  One chat call with the outcome of its remote call, and a sequence of such calls run
  one after the other; \<open>sessions_used\<close> lists, call by call, the session on which the
  message was sent, starting from the empty cache.
\<close>

record chat_call =
  call_prompt :: string
  call_history :: "ChatMessage list"
  call_context :: string
  call_lang :: string
  call_outcome :: "js_exn + model_response"

definition chat_call_result :: "chat_call \<Rightarrow> chat_service \<Rightarrow> (js_exn + js_value) \<times> chat_service" where
  "chat_call_result c st =
     getChatbotResponse (\<lambda>chat prompt. call_outcome c) (call_prompt c) (call_history c)
       (call_context c) (call_lang c) st"

definition chat_step :: "chat_service \<Rightarrow> chat_call \<Rightarrow> chat_service" where
  "chat_step st c = snd (chat_call_result c st)"

definition run_chat :: "chat_call list \<Rightarrow> chat_service \<Rightarrow> chat_service" where
  "run_chat calls st = foldl chat_step st calls"

definition sessions_used :: "chat_call list \<Rightarrow> nat list" where
  "sessions_used calls = map fst (sendMessage_calls (run_chat calls initial_chat_service))"

section \<open>Properties of the exam portal\<close>

subsection \<open>The submission map\<close>

lemma studentSubmissionsMap_foldl:
  "foldl (\<lambda>m s. m(examId s \<mapsto> s)) m0 subs k =
     (case map_of (rev (map (\<lambda>s. (examId s, s)) subs)) k of None \<Rightarrow> m0 k | Some s \<Rightarrow> Some s)"
proof (induction subs arbitrary: m0)
  case Nil
  show ?case by simp
next
  case (Cons s subs)
  have "foldl (\<lambda>m s. m(examId s \<mapsto> s)) m0 (s # subs) k
      = foldl (\<lambda>m s. m(examId s \<mapsto> s)) (m0(examId s \<mapsto> s)) subs k"
    by (simp only: foldl_Cons)
  also have "\<dots> = (case map_of (rev (map (\<lambda>s. (examId s, s)) subs)) k of
             None \<Rightarrow> (m0(examId s \<mapsto> s)) k | Some s' \<Rightarrow> Some s')"
    by (rule Cons.IH)
  also have "\<dots> = (case map_of (rev (map (\<lambda>s. (examId s, s)) (s # subs))) k of
             None \<Rightarrow> m0 k | Some s' \<Rightarrow> Some s')"
    by (simp add: map_add_def split: option.splits)
  finally show ?case .
qed

lemma studentSubmissionsMap_map_of:
  "studentSubmissionsMap subs = map_of (rev (map (\<lambda>s. (examId s, s)) subs))"
  by (rule ext) (simp add: studentSubmissionsMap_def studentSubmissionsMap_foldl split: option.splits)

lemma studentSubmissionsMap_Some:
  assumes "studentSubmissionsMap subs k = Some s"
  shows "s \<in> set subs \<and> examId s = k"
proof -
  from assms have "(k, s) \<in> set (rev (map (\<lambda>s. (examId s, s)) subs))"
    unfolding studentSubmissionsMap_map_of by (rule map_of_SomeD)
  then show ?thesis by auto
qed

lemma studentSubmissionsMap_None:
  "studentSubmissionsMap subs k = None \<longleftrightarrow> (\<forall>s \<in> set subs. examId s \<noteq> k)"
  unfolding studentSubmissionsMap_map_of map_of_eq_None_iff by force

text \<open>
  Under the invariant of the specification (at most one submission per exam in the list
  the component is given), the entry of the map for an exam is the submission of the list
  for that exam.
\<close>

lemma studentSubmissionsMap_unique:
  assumes "distinct (map examId subs)" and "s \<in> set subs"
  shows "studentSubmissionsMap subs (examId s) = Some s"
proof -
  have "map fst (rev (map (\<lambda>s. (examId s, s)) subs)) = rev (map examId subs)"
    by (simp add: rev_map comp_def)
  with assms(1) have "distinct (map fst (rev (map (\<lambda>s. (examId s, s)) subs)))"
    by simp
  moreover from assms(2) have "(examId s, s) \<in> set (rev (map (\<lambda>s. (examId s, s)) subs))"
    by auto
  ultimately show ?thesis
    unfolding studentSubmissionsMap_map_of by (rule map_of_is_SomeI)
qed

subsection \<open>Opening a blocked exam\<close>

text \<open>
  Claim C1. Whatever the catalogue and the submissions, if the submission map holds an
  entry with status Blocked for an exam, then after that exam is made the selected one
  the component shows the blocked message, not the exam taker.
\<close>

theorem blocked_exam_never_opens:
  assumes "studentSubmissionsMap submissions (exam_id exam) = Some s"
    and "status s = Blocked"
  shows "ExamPortal exams submissions (startExam exam st) = ExamBlockedMessage"
  using assms by (simp add: ExamPortal_def startExam_def)

text \<open>The exam \<open>e1\<close> with a Blocked submission, started from the catalogue view.\<close>

theorem blocked_exam_never_opens_witness:
  "ExamPortal [\<lparr>exam_id = ''e1'', title = ''Algebra'', subject = ''Maths'',
                questions = Some [''q1''], durationMinutes = 30\<rparr>]
     [\<lparr>examId = ''e1'', studentId = ''s1'', answers = Map.empty, submittedAt = 1000,
       status = Blocked, submission_id = ''x1'', score = 0, studentName = ''Asha''\<rparr>]
     (startExam \<lparr>exam_id = ''e1'', title = ''Algebra'', subject = ''Maths'',
                questions = Some [''q1''], durationMinutes = 30\<rparr> initial_portal)
   = ExamBlockedMessage"
  by (rule blocked_exam_never_opens
       [where s = "\<lparr>examId = ''e1'', studentId = ''s1'', answers = Map.empty, submittedAt = 1000,
       status = Blocked, submission_id = ''x1'', score = 0, studentName = ''Asha''\<rparr>"])
     (simp_all add: studentSubmissionsMap_def)

subsection \<open>The catalogue\<close>

lemma nth_catalog_card:
  assumes "i < length exams"
  shows "map (\<lambda>(index, exam). exam_card_of m index exam) (enumerate 0 exams) ! i
           = exam_card_of m i (exams ! i)"
  using assms by (simp add: nth_enumerate_eq)

text \<open>
  Claim C2. With no exam selected, the component shows one card per exam of the
  catalogue, and what the card of an exam offers is a function of the entry of the
  submission map for that exam alone: no entry gives the Take Exam button, an entry with
  status Completed gives the panel labelled Completed with the score of the entry, and an
  entry with status Blocked gives the panel labelled Blocked (in the red style). There is
  no entry exactly when no submission of the list is for that exam, and an entry is a
  submission of the list for that exam.
\<close>

theorem card_variant_by_submission:
  assumes "takingExam st = None" and "i < length exams"
  shows "\<exists>cards. ExamPortal exams submissions st = ExamCatalog cards
           \<and> length cards = length exams
           \<and> (case studentSubmissionsMap submissions (exam_id (exams ! i)) of
                None \<Rightarrow>
                  action (cards ! i) = TakeExamButton (exams ! i) \<and> \<not> isBlocked (cards ! i)
                  \<and> (\<forall>s \<in> set submissions. examId s \<noteq> exam_id (exams ! i))
              | Some s \<Rightarrow>
                  s \<in> set submissions \<and> examId s = exam_id (exams ! i)
                  \<and> (case status s of
                       Completed \<Rightarrow>
                         action (cards ! i) = ResultPanel ''Completed'' (score s)
                         \<and> \<not> isBlocked (cards ! i)
                     | Blocked \<Rightarrow>
                         action (cards ! i) = ResultPanel ''Blocked'' (score s)
                         \<and> isBlocked (cards ! i)))"
proof -
  let ?m = "studentSubmissionsMap submissions"
  let ?cards = "map (\<lambda>(index, exam). exam_card_of ?m index exam) (enumerate 0 exams)"
  from assms have view: "ExamPortal exams submissions st = ExamCatalog ?cards"
    by (auto simp add: ExamPortal_def)
  have len: "length ?cards = length exams" by simp
  have card: "?cards ! i = exam_card_of ?m i (exams ! i)"
    using assms(2) by (rule nth_catalog_card)
  have "case ?m (exam_id (exams ! i)) of
                None \<Rightarrow>
                  action (?cards ! i) = TakeExamButton (exams ! i) \<and> \<not> isBlocked (?cards ! i)
                  \<and> (\<forall>s \<in> set submissions. examId s \<noteq> exam_id (exams ! i))
              | Some s \<Rightarrow>
                  s \<in> set submissions \<and> examId s = exam_id (exams ! i)
                  \<and> (case status s of
                       Completed \<Rightarrow>
                         action (?cards ! i) = ResultPanel ''Completed'' (score s)
                         \<and> \<not> isBlocked (?cards ! i)
                     | Blocked \<Rightarrow>
                         action (?cards ! i) = ResultPanel ''Blocked'' (score s)
                         \<and> isBlocked (?cards ! i))"
  proof (cases "?m (exam_id (exams ! i))")
    case None
    moreover from None have "\<forall>s \<in> set submissions. examId s \<noteq> exam_id (exams ! i)"
      by (simp add: studentSubmissionsMap_None)
    ultimately show ?thesis unfolding card by (simp add: exam_card_of_def)
  next
    case (Some s)
    moreover from Some have "s \<in> set submissions \<and> examId s = exam_id (exams ! i)"
      by (rule studentSubmissionsMap_Some)
    ultimately show ?thesis
      unfolding card by (simp add: exam_card_of_def split: submission_status.splits)
  qed
  with view len show ?thesis by blast
qed

text \<open>
  A catalogue of three exams: the first completed with score 80, the second blocked, the
  third not attempted.
\<close>

theorem card_variant_by_submission_witness:
  "(\<exists>cards.
      ExamPortal
        [\<lparr>exam_id = ''e1'', title = ''Algebra'', subject = ''Maths'',
          questions = Some [''q1''], durationMinutes = 30\<rparr>,
         \<lparr>exam_id = ''e2'', title = ''Optics'', subject = ''Physics'',
          questions = None, durationMinutes = 45\<rparr>,
         \<lparr>exam_id = ''e3'', title = ''Cells'', subject = ''Biology'',
          questions = Some [], durationMinutes = 20\<rparr>]
        [\<lparr>examId = ''e1'', studentId = ''s1'', answers = Map.empty, submittedAt = 1000,
          status = Completed, submission_id = ''x1'', score = 80, studentName = ''Asha''\<rparr>,
         \<lparr>examId = ''e2'', studentId = ''s1'', answers = Map.empty, submittedAt = 2000,
          status = Blocked, submission_id = ''x2'', score = 0, studentName = ''Asha''\<rparr>]
        initial_portal = ExamCatalog cards
      \<and> action (cards ! 1) = ResultPanel ''Blocked'' 0 \<and> isBlocked (cards ! 1))"
  using card_variant_by_submission
    [of initial_portal 1
        "[\<lparr>exam_id = ''e1'', title = ''Algebra'', subject = ''Maths'',
          questions = Some [''q1''], durationMinutes = 30\<rparr>,
         \<lparr>exam_id = ''e2'', title = ''Optics'', subject = ''Physics'',
          questions = None, durationMinutes = 45\<rparr>,
         \<lparr>exam_id = ''e3'', title = ''Cells'', subject = ''Biology'',
          questions = Some [], durationMinutes = 20\<rparr>]"
        "[\<lparr>examId = ''e1'', studentId = ''s1'', answers = Map.empty, submittedAt = 1000,
          status = Completed, submission_id = ''x1'', score = 80, studentName = ''Asha''\<rparr>,
         \<lparr>examId = ''e2'', studentId = ''s1'', answers = Map.empty, submittedAt = 2000,
          status = Blocked, submission_id = ''x2'', score = 0, studentName = ''Asha''\<rparr>]"]
  by (simp add: initial_portal_def studentSubmissionsMap_def) blast

subsection \<open>Completing an exam\<close>

text \<open>
  Claim C7, as the component has it. The handler tests and uses the selection of the
  render that made it, not the current one. The handler of a render in which an exam is
  selected (the only one the exam taker is given) passes, on every call and from every
  state, exactly one record to \<open>onSubmitExam\<close>, made of the identifier of that exam, the
  student, the given answers, the current time and the given status, and then clears
  the selection; the handler of a render in which no exam is selected changes nothing
  and passes nothing.
\<close>

theorem handleSubmit_emits_for_rendered_exam:
  "handleSubmit student (Some exam) now ans stat st =
     st\<lparr>onSubmitExam_calls := onSubmitExam_calls st @
           [\<lparr>examId = exam_id exam, studentId = student, answers = ans, submittedAt = now,
             status = stat\<rparr>],
        takingExam := None\<rparr>
   \<and> handleSubmit student None now ans stat st = st
   \<and> (ExamPortal exams submissions shown = ExamTakerView exam \<longrightarrow>
        rendered_handleSubmit student shown = handleSubmit student (Some exam))"
proof -
  have "takingExam shown = Some exam" if "ExamPortal exams submissions shown = ExamTakerView exam"
    using that
    by (auto simp add: ExamPortal_def Let_def split: option.splits if_splits)
  then show ?thesis
    by (simp add: handleSubmit_def rendered_handleSubmit_def)
qed

text \<open>
  The render that shows the exam taker for \<open>e1\<close>: its handler, called once, emits one
  record and clears the selection.
\<close>

theorem handleSubmit_emits_for_rendered_exam_witness:
  "onSubmitExam_calls
     (rendered_handleSubmit ''s1''
        (startExam \<lparr>exam_id = ''e1'', title = ''Algebra'', subject = ''Maths'',
                    questions = Some [''q1''], durationMinutes = 30\<rparr> initial_portal)
        1700000000000 [''q1'' \<mapsto> ''42''] Completed
        (startExam \<lparr>exam_id = ''e1'', title = ''Algebra'', subject = ''Maths'',
                    questions = Some [''q1''], durationMinutes = 30\<rparr> initial_portal))
     = [\<lparr>examId = ''e1'', studentId = ''s1'', answers = [''q1'' \<mapsto> ''42''],
         submittedAt = 1700000000000, status = Completed\<rparr>]
   \<and> takingExam
     (rendered_handleSubmit ''s1''
        (startExam \<lparr>exam_id = ''e1'', title = ''Algebra'', subject = ''Maths'',
                    questions = Some [''q1''], durationMinutes = 30\<rparr> initial_portal)
        1700000000000 [''q1'' \<mapsto> ''42''] Completed
        (startExam \<lparr>exam_id = ''e1'', title = ''Algebra'', subject = ''Maths'',
                    questions = Some [''q1''], durationMinutes = 30\<rparr> initial_portal))
     = None"
  using handleSubmit_emits_for_rendered_exam
    [of "''s1''"
        "\<lparr>exam_id = ''e1'', title = ''Algebra'', subject = ''Maths'',
          questions = Some [''q1''], durationMinutes = 30\<rparr>"
        1700000000000 "[''q1'' \<mapsto> ''42'']" Completed
        "startExam \<lparr>exam_id = ''e1'', title = ''Algebra'', subject = ''Maths'',
                    questions = Some [''q1''], durationMinutes = 30\<rparr> initial_portal"
        "[\<lparr>exam_id = ''e1'', title = ''Algebra'', subject = ''Maths'',
           questions = Some [''q1''], durationMinutes = 30\<rparr>]"
        "[]"
        "startExam \<lparr>exam_id = ''e1'', title = ''Algebra'', subject = ''Maths'',
                    questions = Some [''q1''], durationMinutes = 30\<rparr> initial_portal"]
  by (simp add: ExamPortal_def studentSubmissionsMap_def startExam_def initial_portal_def)

text \<open>
  The handler of the render that shows the exam taker for \<open>e1\<close>, called twice: at the
  second call no exam is selected any more, and a second record is emitted.
\<close>

theorem stale_handleSubmit_counterexample:
  "takingExam
     (handleSubmit ''s1''
        (Some \<lparr>exam_id = ''e1'', title = ''Algebra'', subject = ''Maths'',
               questions = Some [''q1''], durationMinutes = 30\<rparr>)
        1700000000000 (map_of [(''q1'', ''42'')]) Completed
        (startExam \<lparr>exam_id = ''e1'', title = ''Algebra'', subject = ''Maths'',
                    questions = Some [''q1''], durationMinutes = 30\<rparr> initial_portal))
     = None
   \<and> onSubmitExam_calls
     (handleSubmit ''s1''
        (Some \<lparr>exam_id = ''e1'', title = ''Algebra'', subject = ''Maths'',
               questions = Some [''q1''], durationMinutes = 30\<rparr>)
        1700000000500 (map_of [(''q1'', ''42'')]) Completed
        (handleSubmit ''s1''
           (Some \<lparr>exam_id = ''e1'', title = ''Algebra'', subject = ''Maths'',
                  questions = Some [''q1''], durationMinutes = 30\<rparr>)
           1700000000000 (map_of [(''q1'', ''42'')]) Completed
           (startExam \<lparr>exam_id = ''e1'', title = ''Algebra'', subject = ''Maths'',
                       questions = Some [''q1''], durationMinutes = 30\<rparr> initial_portal)))
     = [\<lparr>examId = ''e1'', studentId = ''s1'', answers = map_of [(''q1'', ''42'')],
         submittedAt = 1700000000000, status = Completed\<rparr>,
        \<lparr>examId = ''e1'', studentId = ''s1'', answers = map_of [(''q1'', ''42'')],
         submittedAt = 1700000000500, status = Completed\<rparr>]"
  by (simp add: handleSubmit_def startExam_def initial_portal_def)

section \<open>Properties of the QR scan session\<close>

subsection \<open>Rounding to doubles\<close>

lemma round_ties_even_le:
  assumes "y \<le> of_int N"
  shows "round_ties_even y \<le> N"
proof (cases "\<lfloor>y\<rfloor> = N")
  case True
  with assms have "y = of_int N" by linarith
  then show ?thesis by (simp add: round_ties_even_def)
next
  case False
  from assms have "\<lfloor>y\<rfloor> \<le> N" by (simp add: floor_le_iff)
  with False have "\<lfloor>y\<rfloor> + 1 \<le> N" by simp
  then show ?thesis by (simp add: round_ties_even_def Let_def)
qed

lemma round_ties_even_ge:
  assumes "of_int N \<le> y"
  shows "N \<le> round_ties_even y"
proof -
  from assms have "N \<le> \<lfloor>y\<rfloor>" by (simp add: le_floor_iff)
  then show ?thesis by (simp add: round_ties_even_def Let_def)
qed

lemma double_ulp_pos: "0 < double_ulp x"
  by (simp add: double_ulp_def)

lemma grid_multiple:
  fixes c :: real
  assumes "c = of_int n * 2 powr (of_int k - 52)" and "e \<le> k"
  shows "\<exists>N::int. c = of_int N * 2 powr (of_int e - 52)"
proof -
  have "(2::real) powr (of_int k - 52) = 2 powr (of_int (k - e)) * 2 powr (of_int e - 52)"
    by (simp add: powr_add [symmetric])
  also have "2 powr (of_int (k - e)) = (2::real) ^ nat (k - e)"
    using powr_real_of_int [of 2 "k - e"] assms(2) by simp
  finally have "c = of_int (n * 2 ^ nat (k - e)) * 2 powr (of_int e - 52)"
    using assms(1) by simp
  then show ?thesis ..
qed

lemma double_exponent_le:
  assumes "0 < x" and "x < 2 powr (of_int k + 1)" and "- 1022 \<le> k"
  shows "double_exponent x \<le> k"
proof -
  have "log 2 x < of_int k + 1"
    using assms(1,2) by (simp add: log_less_iff)
  then have "\<lfloor>log 2 x\<rfloor> \<le> k" by linarith
  with assms(1,3) show ?thesis by (simp add: double_exponent_def)
qed

lemma double_exponent_ge:
  assumes "2 powr of_int k \<le> x"
  shows "k \<le> double_exponent x"
proof -
  have pos: "0 < x" using assms by (rule less_le_trans [rotated]) simp
  then have "of_int k \<le> log 2 x" using assms by (simp add: le_log_iff)
  then have "k \<le> \<lfloor>log 2 x\<rfloor>" by (simp add: le_floor_iff)
  with pos show ?thesis by (simp add: double_exponent_def)
qed

text \<open>
  Rounding does not cross a double: for a positive double \<open>c\<close>, given by its mantissa
  \<open>n\<close> and its exponent \<open>k\<close>, a number at most \<open>c\<close> rounds to at most \<open>c\<close> and a number
  at least \<open>c\<close> rounds to at least \<open>c\<close>.
\<close>

lemma round_double_le:
  assumes c: "c = of_int n * 2 powr (of_int k - 52)" and "0 < c"
    and "c < 2 powr (of_int k + 1)" and "- 1022 \<le> k" and "x \<le> c"
  shows "round_double x \<le> c"
proof -
  consider "x = 0" | "x < 0" | "0 < x" by linarith
  then show ?thesis
  proof cases
    case 1
    with \<open>0 < c\<close> show ?thesis by (simp add: round_double_def)
  next
    case 2
    then have "x / double_ulp x \<le> of_int 0"
      using double_ulp_pos [of x] by (simp add: divide_le_0_iff)
    then have "round_ties_even (x / double_ulp x) \<le> 0" by (rule round_ties_even_le)
    then have "double_ulp x * of_int (round_ties_even (x / double_ulp x)) \<le> 0"
      using double_ulp_pos [of x] by (simp add: mult_le_0_iff)
    with 2 \<open>0 < c\<close> show ?thesis by (simp add: round_double_def)
  next
    case 3
    from 3 \<open>x \<le> c\<close> \<open>c < 2 powr (of_int k + 1)\<close> have "x < 2 powr (of_int k + 1)" by simp
    with 3 have "double_exponent x \<le> k" using \<open>- 1022 \<le> k\<close> by (rule double_exponent_le)
    with c obtain N :: int where N: "c = of_int N * double_ulp x"
      unfolding double_ulp_def by (rule grid_multiple [THEN exE])
    have "x / double_ulp x \<le> c / double_ulp x"
      using \<open>x \<le> c\<close> double_ulp_pos [of x] by (simp add: divide_right_mono)
    also have "c / double_ulp x = of_int N"
      using N double_ulp_pos [of x] by simp
    finally have "round_ties_even (x / double_ulp x) \<le> N" by (rule round_ties_even_le)
    then have "double_ulp x * of_int (round_ties_even (x / double_ulp x)) \<le> double_ulp x * of_int N"
      using double_ulp_pos [of x] by simp
    with 3 N show ?thesis by (simp add: round_double_def mult.commute)
  qed
qed

lemma round_double_ge:
  assumes c: "c = of_int n * 2 powr (of_int k - 52)"
    and "2 powr of_int k \<le> c" and "c < 2 powr (of_int k + 1)" and "- 1022 \<le> k" and "c \<le> x"
  shows "c \<le> round_double x"
proof -
  have "0 < c" using \<open>2 powr of_int k \<le> c\<close> by (rule less_le_trans [rotated]) simp
  with \<open>c \<le> x\<close> have "0 < x" by simp
  from \<open>2 powr of_int k \<le> c\<close> \<open>c \<le> x\<close> have "2 powr of_int k \<le> x" by simp
  then have ge: "k \<le> double_exponent x" by (rule double_exponent_ge)
  show ?thesis
  proof (cases "double_exponent x = k")
    case True
    from c have "c = of_int n * double_ulp x" by (simp add: double_ulp_def True)
    then have "of_int n = c / double_ulp x" using double_ulp_pos [of x] by simp
    also have "\<dots> \<le> x / double_ulp x"
      using \<open>c \<le> x\<close> double_ulp_pos [of x] by (simp add: divide_right_mono)
    finally have "n \<le> round_ties_even (x / double_ulp x)" by (rule round_ties_even_ge)
    then have "double_ulp x * of_int n \<le> double_ulp x * of_int (round_ties_even (x / double_ulp x))"
      using double_ulp_pos [of x] by simp
    with \<open>0 < x\<close> \<open>c = of_int n * double_ulp x\<close> show ?thesis
      by (simp add: round_double_def mult.commute)
  next
    case False
    with ge have gt: "k + 1 \<le> double_exponent x" by simp
    let ?e = "double_exponent x"
    from gt \<open>- 1022 \<le> k\<close> have "?e = \<lfloor>log 2 \<bar>x\<bar>\<rfloor>" by (simp add: double_exponent_def max_def split: if_splits)
    then have "of_int ?e \<le> log 2 x" using \<open>0 < x\<close> by simp
    then have low: "2 powr of_int ?e \<le> x" using \<open>0 < x\<close> by (simp add: le_log_iff)
    have "2 powr of_int ?e = of_int (2 ^ 52) * double_ulp x"
      by (simp add: double_ulp_def powr_diff)
    with low have "of_int (2 ^ 52) \<le> x / double_ulp x"
      using double_ulp_pos [of x] by (simp add: pos_le_divide_eq)
    then have "2 ^ 52 \<le> round_ties_even (x / double_ulp x)" by (rule round_ties_even_ge)
    then have "double_ulp x * of_int (2 ^ 52) \<le> double_ulp x * of_int (round_ties_even (x / double_ulp x))"
      using double_ulp_pos [of x] by (simp only: mult_le_cancel_left_pos of_int_le_iff)
    with \<open>2 powr of_int ?e = of_int (2 ^ 52) * double_ulp x\<close> \<open>0 < x\<close>
    have "2 powr of_int ?e \<le> round_double x" by (simp add: round_double_def mult.commute)
    moreover have "(2::real) powr (of_int k + 1) \<le> 2 powr of_int ?e"
    proof -
      from gt have "real_of_int k + 1 \<le> of_int ?e" by linarith
      then show ?thesis by (simp add: powr_le_cancel_iff)
    qed
    ultimately show ?thesis using \<open>c < 2 powr (of_int k + 1)\<close> by linarith
  qed
qed


text \<open>
  The age test of the scanner on an exact difference \<open>d\<close> in milliseconds: up to 60000
  the rounded quotient does not exceed 60, and from 60001 on it does; 60000, 60001, 60
  and \<open>60 + 1/1024\<close> are doubles.
\<close>

lemma age_fresh:
  assumes "d \<le> 60000"
  shows "\<not> 60 < round_double (round_double d / 1000)"
proof -
  have "round_double d \<le> 60000"
  proof (rule round_double_le [where n = "60000 * 2 ^ 37" and k = 15])
    show "(60000::real) = of_int (60000 * 2 ^ 37) * 2 powr (of_int 15 - 52)"
      by (simp add: powr_neg_numeral)
    show "(60000::real) < 2 powr (of_int 15 + 1)" by simp
  qed (use assms in simp_all)
  then have "round_double d / 1000 \<le> 60" by simp
  then have "round_double (round_double d / 1000) \<le> 60"
  proof (rule round_double_le [where n = "60 * 2 ^ 47" and k = 5, rotated 4])
    show "(60::real) = of_int (60 * 2 ^ 47) * 2 powr (of_int 5 - 52)"
      by (simp add: powr_neg_numeral)
    show "(60::real) < 2 powr (of_int 5 + 1)" by simp
  qed simp_all
  then show ?thesis by simp
qed

lemma age_expired:
  assumes "60001 \<le> d"
  shows "60 < round_double (round_double d / 1000)"
proof -
  have "60001 \<le> round_double d"
  proof (rule round_double_ge [where n = "60001 * 2 ^ 37" and k = 15])
    show "(60001::real) = of_int (60001 * 2 ^ 37) * 2 powr (of_int 15 - 52)"
      by (simp add: powr_neg_numeral)
    show "(60001::real) < 2 powr (of_int 15 + 1)" by simp
    show "2 powr of_int 15 \<le> (60001::real)" by simp
  qed (use assms in simp_all)
  then have "61441 / 1024 \<le> round_double d / 1000" by simp
  then have "61441 / 1024 \<le> round_double (round_double d / 1000)"
  proof (rule round_double_ge [where n = "61441 * 2 ^ 37" and k = 5, rotated 4])
    show "(61441 / 1024 :: real) = of_int (61441 * 2 ^ 37) * 2 powr (of_int 5 - 52)"
      by (simp add: powr_neg_numeral)
    show "(61441 / 1024 :: real) < 2 powr (of_int 5 + 1)" by simp
    show "2 powr of_int 5 \<le> (61441 / 1024 :: real)" by simp
  qed simp_all
  then show ?thesis by simp
qed

lemma double_exponent_eq:
  assumes "2 powr of_int k \<le> x" and "x < 2 powr (of_int k + 1)" and "- 1022 \<le> k"
  shows "double_exponent x = k"
proof -
  have pos: "0 < x" using assms(1) by (rule less_le_trans [rotated]) simp
  with assms(1,2) have "\<lfloor>log 2 x\<rfloor> = k" by (simp add: floor_log_eq_powr_iff)
  with pos assms(3) show ?thesis by (simp add: double_exponent_def)
qed

text \<open>
  Between 60000 and 60001 the rounding decides. An age of \<open>60000 + 1 / 2 ^ 40\<close> ms,
  for instance, is less than half a unit in the last place above 60000, so the
  subtraction gives 60000 and the code is not taken for expired.
\<close>

lemma rounding_decides_between:
  "round_double (60000 + 1 / 2 ^ 40) = 60000"
proof -
  define x :: real where "x = 60000 + 1 / 2 ^ 40"
  have e: "double_exponent x = 15"
    by (rule double_exponent_eq) (simp_all add: x_def)
  then have u: "double_ulp x = 1 / 2 ^ 37"
    by (simp add: double_ulp_def powr_neg_numeral)
  have y: "x / double_ulp x = 65970697666560001 / 8" by (simp only: u) (simp add: x_def)
  have f: "\<lfloor>65970697666560001 / 8 :: real\<rfloor> = 8246337208320000"
    by (simp add: floor_eq_iff)
  have "round_ties_even (65970697666560001 / 8) = 8246337208320000"
    unfolding round_ties_even_def Let_def f by simp
  then have r: "round_ties_even (x / double_ulp x) = 60000 * 2 ^ 37"
    by (simp only: y) simp
  have "x \<noteq> 0" by (simp add: x_def)
  then have "round_double x = double_ulp x * of_int (round_ties_even (x / double_ulp x))"
    by (simp only: round_double_def if_False)
  also have "\<dots> = 60000" by (simp only: r) (simp add: u)
  finally show ?thesis by (simp only: x_def)
qed

lemma age_just_above_60000:
  "\<not> 60 < round_double (round_double (60000 + 1 / 2 ^ 40) / 1000)"
proof -
  have le: "round_double (60000 / 1000) \<le> 60"
  proof (rule round_double_le [where n = "60 * 2 ^ 47" and k = 5])
    show "(60::real) = of_int (60 * 2 ^ 47) * 2 powr (of_int 5 - 52)"
      by (simp add: powr_neg_numeral)
    show "(60::real) < 2 powr (of_int 5 + 1)" by simp
  qed simp_all
  have "round_double (round_double (60000 + 1 / 2 ^ 40) / 1000) = round_double (60000 / 1000)"
    by (simp only: rounding_decides_between)
  with le show ?thesis by linarith
qed

subsection \<open>The decode callback\<close>

lemma constant_runtime_simps [simp]:
  "atob (constant_runtime a p n) s = a"
  "JSON_parse (constant_runtime a p n) s = p"
  "ToNumber (constant_runtime a p n) v = n"
  by (simp_all add: constant_runtime_def)

text \<open>
  In a session that shows no error and holds a scanner object, the callback pauses the
  scanner and then acts on the outcome of its \<^verbatim>\<open>try\<close> block.
\<close>

lemma callback_scanning:
  assumes "scanResult st = None" and "scannerRef st = Some h"
  shows "qrCodeSuccessCallback rt now decodedText st =
           Inr (case scan_try_block rt now decodedText of
                  Inr (Accepted sid) \<Rightarrow>
                    st\<lparr>scanner_calls := scanner_calls st @ [Pause h],
                       onScanSuccess_calls := onScanSuccess_calls st @ [sid]\<rparr>
                | Inr Expired \<Rightarrow>
                    st\<lparr>scanner_calls := scanner_calls st @ [Pause h],
                       scanResult := Some (ScanError expired_message)\<rparr>
                | Inl e \<Rightarrow>
                    st\<lparr>scanner_calls := scanner_calls st @ [Pause h],
                       scanResult := Some (ScanError invalid_format_message)\<rparr>)"
  using assms
  by (simp add: qrCodeSuccessCallback_def Let_def split: sum.splits scan_verdict.splits)

lemma try_block_bad_base64:
  "atob rt decodedText = Inl e \<Longrightarrow> scan_try_block rt now decodedText = Inl e"
  by (simp add: scan_try_block_def)

lemma try_block_bad_json:
  "atob rt decodedText = Inr b \<Longrightarrow> JSON_parse rt b = Inl e \<Longrightarrow>
     scan_try_block rt now decodedText = Inl e"
  by (simp add: scan_try_block_def)

lemma try_block_falsy_field:
  assumes "atob rt decodedText = Inr b" and "JSON_parse rt b = Inr (JObj kvs)"
    and "(\<forall>v. map_of kvs ''studentId'' = Some v \<longrightarrow> \<not> truthy v)
          \<or> (\<forall>v. map_of kvs ''timestamp'' = Some v \<longrightarrow> \<not> truthy v)"
  shows "scan_try_block rt now decodedText = Inl (Error ''Invalid QR code data.'')"
  using assms by (auto simp add: scan_try_block_def split: option.splits)

lemma try_block_fresh:
  assumes "atob rt decodedText = Inr b" and "JSON_parse rt b = Inr (JObj kvs)"
    and "map_of kvs ''studentId'' = Some sid" and "truthy sid"
    and "map_of kvs ''timestamp'' = Some (JNum n)" and "n \<noteq> 0"
    and "real_of_int now - n \<le> 60000"
  shows "scan_try_block rt now decodedText = Inr (Accepted sid)"
  using assms(1-6) age_fresh [OF assms(7)] by (simp add: scan_try_block_def Let_def)

lemma try_block_expired:
  assumes "atob rt decodedText = Inr b" and "JSON_parse rt b = Inr (JObj kvs)"
    and "map_of kvs ''studentId'' = Some sid" and "truthy sid"
    and "map_of kvs ''timestamp'' = Some (JNum n)" and "n \<noteq> 0"
    and "60001 \<le> real_of_int now - n"
  shows "scan_try_block rt now decodedText = Inr Expired"
  using assms(1-6) age_expired [OF assms(7)] by (simp add: scan_try_block_def Let_def)

text \<open>
  A scanned text that does not decode to an object with a truthy \<open>studentId\<close> and a
  truthy \<open>timestamp\<close> makes the \<^verbatim>\<open>try\<close> block throw.
\<close>

lemma try_block_other_shape:
  assumes "\<not> (\<exists>b kvs sid ts. atob rt decodedText = Inr b \<and> JSON_parse rt b = Inr (JObj kvs)
               \<and> map_of kvs ''studentId'' = Some sid \<and> truthy sid
               \<and> map_of kvs ''timestamp'' = Some ts \<and> truthy ts)"
  shows "\<exists>e. scan_try_block rt now decodedText = Inl e"
proof (cases "atob rt decodedText")
  case (Inl e)
  then show ?thesis by (simp add: scan_try_block_def)
next
  case (Inr b)
  note decoded = this
  show ?thesis
  proof (cases "JSON_parse rt b")
    case (Inl e)
    with decoded show ?thesis by (simp add: scan_try_block_def)
  next
    case (Inr decodedData)
    show ?thesis
    proof (cases decodedData)
      case (JObj kvs)
      with assms decoded Inr
      have "(\<forall>v. map_of kvs ''studentId'' = Some v \<longrightarrow> \<not> truthy v)
          \<or> (\<forall>v. map_of kvs ''timestamp'' = Some v \<longrightarrow> \<not> truthy v)"
        by auto
      with decoded Inr JObj
      have "scan_try_block rt now decodedText = Inl (Error ''Invalid QR code data.'')"
        by (intro try_block_falsy_field) simp_all
      then show ?thesis ..
    qed (use decoded Inr in \<open>simp_all add: scan_try_block_def\<close>)
  qed
qed

subsection \<open>Freshness\<close>

text \<open>
  Claim C3, as the callback has it. The claim speaks of every payload with a valid
  student identifier and an integer timestamp; the guard of the callback throws on a
  timestamp that is zero before any age is computed, so the statement is for a student
  identifier that passes the guard and a non-zero integer timestamp. In a session that
  shows no error and holds a scanner object, such a payload is passed to
  \<open>onScanSuccess\<close> with its student identifier when \<open>now - t\<close> is at most 60000
  milliseconds, and gives the expired-code error otherwise.
\<close>

theorem fresh_iff_age_at_most_60000:
  assumes "atob rt decodedText = Inr b" and "JSON_parse rt b = Inr (JObj kvs)"
    and "map_of kvs ''studentId'' = Some sid" and "truthy sid"
    and "map_of kvs ''timestamp'' = Some (JNum (real_of_int t))" and "t \<noteq> 0"
    and "scanResult st = None" and "scannerRef st = Some h"
  shows "qrCodeSuccessCallback rt now decodedText st =
           Inr (if now - t \<le> 60000
                then st\<lparr>scanner_calls := scanner_calls st @ [Pause h],
                        onScanSuccess_calls := onScanSuccess_calls st @ [sid]\<rparr>
                else st\<lparr>scanner_calls := scanner_calls st @ [Pause h],
                        scanResult := Some (ScanError expired_message)\<rparr>)"
proof -
  from assms(6) have nz: "real_of_int t \<noteq> 0" by simp
  show ?thesis
  proof (cases "now - t \<le> 60000")
    case True
    then have "real_of_int now - real_of_int t \<le> 60000" by linarith
    with assms(1-5) nz have "scan_try_block rt now decodedText = Inr (Accepted sid)"
      by (rule try_block_fresh)
    with True assms(7,8) show ?thesis by (simp add: callback_scanning)
  next
    case False
    then have "60001 \<le> real_of_int now - real_of_int t" by linarith
    with assms(1-5) nz have "scan_try_block rt now decodedText = Inr Expired"
      by (rule try_block_expired)
    with False assms(7,8) show ?thesis by (simp add: callback_scanning)
  qed
qed

text \<open>The boundary: an age of exactly 60000 ms is accepted, 60001 ms is expired.\<close>

theorem fresh_iff_age_at_most_60000_witness:
  "qrCodeSuccessCallback
      (constant_runtime (Inr ''{\"studentId\":\"s1\",\"timestamp\":1700000000000}'')
         (Inr (JObj [(''studentId'', JStr ''s1''), (''timestamp'', JNum 1700000000000)]))
         (Inr None))
      1700000060000 ''payload'' (scannerEffect True initial_scanner)
    = Inr \<lparr>scanResult = None, scannerRef = Some 0,
           readerRef = True, instances = 1, scanner_calls = [New 0, Start 0, Pause 0],
           onScanSuccess_calls = [JStr ''s1''], effect_cleanup = True\<rparr>
   \<and> qrCodeSuccessCallback
      (constant_runtime (Inr ''{\"studentId\":\"s1\",\"timestamp\":1700000000000}'')
         (Inr (JObj [(''studentId'', JStr ''s1''), (''timestamp'', JNum 1700000000000)]))
         (Inr None))
      1700000060001 ''payload'' (scannerEffect True initial_scanner)
    = Inr \<lparr>scanResult = Some (ScanError expired_message), scannerRef = Some 0,
           readerRef = True, instances = 1, scanner_calls = [New 0, Start 0, Pause 0],
           onScanSuccess_calls = [], effect_cleanup = True\<rparr>"
  using fresh_iff_age_at_most_60000
          [of "constant_runtime (Inr ''{\"studentId\":\"s1\",\"timestamp\":1700000000000}'')
                 (Inr (JObj [(''studentId'', JStr ''s1''), (''timestamp'', JNum 1700000000000)]))
                 (Inr None)"
              "''payload''" "''{\"studentId\":\"s1\",\"timestamp\":1700000000000}''"
              "[(''studentId'', JStr ''s1''), (''timestamp'', JNum 1700000000000)]"
              "JStr ''s1''" 1700000000000 "scannerEffect True initial_scanner" 0 1700000060000]
        fresh_iff_age_at_most_60000
          [of "constant_runtime (Inr ''{\"studentId\":\"s1\",\"timestamp\":1700000000000}'')
                 (Inr (JObj [(''studentId'', JStr ''s1''), (''timestamp'', JNum 1700000000000)]))
                 (Inr None)"
              "''payload''" "''{\"studentId\":\"s1\",\"timestamp\":1700000000000}''"
              "[(''studentId'', JStr ''s1''), (''timestamp'', JNum 1700000000000)]"
              "JStr ''s1''" 1700000000000 "scannerEffect True initial_scanner" 0 1700000060001]
  by (simp add: scannerEffect_def initial_scanner_def)

text \<open>
  A payload with student identifier \<open>s1\<close> and the integer timestamp 0, scanned at
  1700000000000: its age exceeds 60000 ms, and the session shows the format error, which
  is not the expired-code error.
\<close>

theorem zero_timestamp_counterexample:
  "(1700000000000::int) - 0 > 60000
   \<and> qrCodeSuccessCallback
      (constant_runtime (Inr ''{\"studentId\":\"s1\",\"timestamp\":0}'')
         (Inr (JObj [(''studentId'', JStr ''s1''), (''timestamp'', JNum (real_of_int 0))]))
         (Inr None))
      1700000000000 ''payload'' (scannerEffect True initial_scanner)
    = Inr \<lparr>scanResult = Some (ScanError invalid_format_message), scannerRef = Some 0,
           readerRef = True, instances = 1, scanner_calls = [New 0, Start 0, Pause 0],
           onScanSuccess_calls = [], effect_cleanup = True\<rparr>
   \<and> ScanError invalid_format_message \<noteq> ScanError expired_message"
  by (simp add: qrCodeSuccessCallback_def scan_try_block_def scannerEffect_def
        initial_scanner_def invalid_format_message_def expired_message_def Let_def)

subsection \<open>Malformed payloads\<close>

text \<open>
  Claim C4. A scanned text that is not base64, or whose decoding is not JSON, or that
  decodes to an object without the property \<open>studentId\<close> or without the property
  \<open>timestamp\<close>, puts a session that shows no error and holds a scanner object into the
  format-error state; and from whatever state the callback returns, nothing has been
  passed to \<open>onScanSuccess\<close> and the session shows an error.
\<close>

theorem malformed_payload_is_format_error:
  assumes bad:
    "(\<exists>e. atob rt decodedText = Inl e)
     \<or> (\<exists>b e. atob rt decodedText = Inr b \<and> JSON_parse rt b = Inl e)
     \<or> (\<exists>b kvs. atob rt decodedText = Inr b \<and> JSON_parse rt b = Inr (JObj kvs)
           \<and> (map_of kvs ''studentId'' = None \<or> map_of kvs ''timestamp'' = None))"
  shows "(scanResult st = None \<and> scannerRef st = Some h \<longrightarrow>
            qrCodeSuccessCallback rt now decodedText st =
              Inr (st\<lparr>scanner_calls := scanner_calls st @ [Pause h],
                      scanResult := Some (ScanError invalid_format_message)\<rparr>))
       \<and> (\<forall>st'. qrCodeSuccessCallback rt now decodedText st = Inr st' \<longrightarrow>
              onScanSuccess_calls st' = onScanSuccess_calls st \<and> scanResult st' \<noteq> None)"
proof -
  from bad consider
      (base64) e where "atob rt decodedText = Inl e"
    | (json) b e where "atob rt decodedText = Inr b" "JSON_parse rt b = Inl e"
    | (field) b kvs where "atob rt decodedText = Inr b" "JSON_parse rt b = Inr (JObj kvs)"
        "map_of kvs ''studentId'' = None \<or> map_of kvs ''timestamp'' = None"
    by blast
  then have "\<exists>e. scan_try_block rt now decodedText = Inl e"
  proof cases
    case base64
    then have "scan_try_block rt now decodedText = Inl e" by (rule try_block_bad_base64)
    then show ?thesis ..
  next
    case json
    then have "scan_try_block rt now decodedText = Inl e" by (rule try_block_bad_json)
    then show ?thesis ..
  next
    case field
    from field(3) have "(\<forall>v. map_of kvs ''studentId'' = Some v \<longrightarrow> \<not> truthy v)
          \<or> (\<forall>v. map_of kvs ''timestamp'' = Some v \<longrightarrow> \<not> truthy v)"
      by auto
    with field(1,2)
    have "scan_try_block rt now decodedText = Inl (Error ''Invalid QR code data.'')"
      by (rule try_block_falsy_field)
    then show ?thesis ..
  qed
  then obtain e where thrown: "scan_try_block rt now decodedText = Inl e" ..
  have first: "scanResult st = None \<and> scannerRef st = Some h \<longrightarrow>
            qrCodeSuccessCallback rt now decodedText st =
              Inr (st\<lparr>scanner_calls := scanner_calls st @ [Pause h],
                      scanResult := Some (ScanError invalid_format_message)\<rparr>)"
    by (simp add: callback_scanning thrown)
  have second: "\<forall>st'. qrCodeSuccessCallback rt now decodedText st = Inr st' \<longrightarrow>
              onScanSuccess_calls st' = onScanSuccess_calls st \<and> scanResult st' \<noteq> None"
    using thrown
    by (auto simp add: qrCodeSuccessCallback_def Let_def split: if_splits option.splits)
  from first second show ?thesis by (rule conjI)
qed

text \<open>An object without \<open>studentId\<close>, and a text that is not base64.\<close>

theorem malformed_payload_is_format_error_witness:
  "qrCodeSuccessCallback
      (constant_runtime (Inr ''{\"timestamp\":1700000000000}'')
         (Inr (JObj [(''timestamp'', JNum 1700000000000)])) (Inr None))
      1700000001000 ''eyJ0aW1lc3RhbXAiOjE3MDAwMDAwMDAwMDB9'' (scannerEffect True initial_scanner)
    = Inr \<lparr>scanResult = Some (ScanError invalid_format_message), scannerRef = Some 0,
           readerRef = True, instances = 1, scanner_calls = [New 0, Start 0, Pause 0],
           onScanSuccess_calls = [], effect_cleanup = True\<rparr>
   \<and> qrCodeSuccessCallback
      (constant_runtime (Inl InvalidCharacterError) (Inl SyntaxError) (Inr None))
      1700000001000 ''not base64!'' (scannerEffect True initial_scanner)
    = Inr \<lparr>scanResult = Some (ScanError invalid_format_message), scannerRef = Some 0,
           readerRef = True, instances = 1, scanner_calls = [New 0, Start 0, Pause 0],
           onScanSuccess_calls = [], effect_cleanup = True\<rparr>"
  using malformed_payload_is_format_error
          [of "constant_runtime (Inr ''{\"timestamp\":1700000000000}'')
                 (Inr (JObj [(''timestamp'', JNum 1700000000000)])) (Inr None)"
              "''eyJ0aW1lc3RhbXAiOjE3MDAwMDAwMDAwMDB9''" "scannerEffect True initial_scanner" 0
              1700000001000]
        malformed_payload_is_format_error
          [of "constant_runtime (Inl InvalidCharacterError) (Inl SyntaxError) (Inr None)"
              "''not base64!''" "scannerEffect True initial_scanner" 0 1700000001000]
  by (simp add: scannerEffect_def initial_scanner_def)

text \<open>
  Claim C10. A payload that has both properties, with the empty string as student
  identifier or with the number 0 as timestamp, puts a session that shows no error and
  holds a scanner object into the format-error state: nothing is passed to
  \<open>onScanSuccess\<close> and the error is not the expired-code one.
\<close>

theorem empty_id_or_zero_timestamp_is_format_error:
  assumes "atob rt decodedText = Inr b" and "JSON_parse rt b = Inr (JObj kvs)"
    and "map_of kvs ''studentId'' = Some sid" and "map_of kvs ''timestamp'' = Some ts"
    and "sid = JStr [] \<or> ts = JNum 0"
    and "scanResult st = None" and "scannerRef st = Some h"
  shows "qrCodeSuccessCallback rt now decodedText st =
           Inr (st\<lparr>scanner_calls := scanner_calls st @ [Pause h],
                   scanResult := Some (ScanError invalid_format_message)\<rparr>)
         \<and> invalid_format_message \<noteq> expired_message"
proof -
  from assms(3-5) have "(\<forall>v. map_of kvs ''studentId'' = Some v \<longrightarrow> \<not> truthy v)
          \<or> (\<forall>v. map_of kvs ''timestamp'' = Some v \<longrightarrow> \<not> truthy v)"
    by auto
  with assms(1,2) have "scan_try_block rt now decodedText = Inl (Error ''Invalid QR code data.'')"
    by (rule try_block_falsy_field)
  with assms(6,7) have "qrCodeSuccessCallback rt now decodedText st =
           Inr (st\<lparr>scanner_calls := scanner_calls st @ [Pause h],
                   scanResult := Some (ScanError invalid_format_message)\<rparr>)"
    by (simp add: callback_scanning)
  moreover have "invalid_format_message \<noteq> expired_message"
    by (simp add: invalid_format_message_def expired_message_def)
  ultimately show ?thesis by (rule conjI)
qed

text \<open>The empty student identifier, and the timestamp 0.\<close>

theorem empty_id_or_zero_timestamp_is_format_error_witness:
  "qrCodeSuccessCallback
      (constant_runtime (Inr ''{\"studentId\":\"\",\"timestamp\":1700000000000}'')
         (Inr (JObj [(''studentId'', JStr []), (''timestamp'', JNum 1700000000000)])) (Inr None))
      1700000001000 ''payload'' (scannerEffect True initial_scanner)
    = Inr \<lparr>scanResult = Some (ScanError invalid_format_message), scannerRef = Some 0,
           readerRef = True, instances = 1, scanner_calls = [New 0, Start 0, Pause 0],
           onScanSuccess_calls = [], effect_cleanup = True\<rparr>
   \<and> qrCodeSuccessCallback
      (constant_runtime (Inr ''{\"studentId\":\"s1\",\"timestamp\":0}'')
         (Inr (JObj [(''studentId'', JStr ''s1''), (''timestamp'', JNum 0)])) (Inr None))
      1700000001000 ''payload'' (scannerEffect True initial_scanner)
    = Inr \<lparr>scanResult = Some (ScanError invalid_format_message), scannerRef = Some 0,
           readerRef = True, instances = 1, scanner_calls = [New 0, Start 0, Pause 0],
           onScanSuccess_calls = [], effect_cleanup = True\<rparr>"
  using empty_id_or_zero_timestamp_is_format_error
          [of "constant_runtime (Inr ''{\"studentId\":\"\",\"timestamp\":1700000000000}'')
                 (Inr (JObj [(''studentId'', JStr []), (''timestamp'', JNum 1700000000000)]))
                 (Inr None)"
              "''payload''" "''{\"studentId\":\"\",\"timestamp\":1700000000000}''"
              "[(''studentId'', JStr []), (''timestamp'', JNum 1700000000000)]"
              "JStr []" "JNum 1700000000000" "scannerEffect True initial_scanner" 0 1700000001000]
        empty_id_or_zero_timestamp_is_format_error
          [of "constant_runtime (Inr ''{\"studentId\":\"s1\",\"timestamp\":0}'')
                 (Inr (JObj [(''studentId'', JStr ''s1''), (''timestamp'', JNum 0)])) (Inr None)"
              "''payload''" "''{\"studentId\":\"s1\",\"timestamp\":0}''"
              "[(''studentId'', JStr ''s1''), (''timestamp'', JNum 0)]"
              "JStr ''s1''" "JNum 0" "scannerEffect True initial_scanner" 0 1700000001000]
  by (simp add: scannerEffect_def initial_scanner_def)

subsection \<open>What the validation checks\<close>

text \<open>
  Claim C5, as the callback has it. The callback accepts only a scanned text that
  decodes to a JSON object whose \<open>studentId\<close> and \<open>timestamp\<close> are both present and
  truthy: in a session that shows no error and holds a scanner object, every other text
  (not base64, not JSON, a JSON value that is not an object, an object in which either
  property is absent or falsy) gives the format error. It does not test the types: a
  student identifier of any type that is truthy, with a timestamp that is any non-zero
  number, integer or not, is passed to \<open>onScanSuccess\<close> when the timestamp is at most
  60000 ms before \<open>now\<close>, and gives the expired-code error when it is 60001 ms or more
  before \<open>now\<close>.
\<close>

theorem validation_checks_presence_not_type:
  assumes "scanResult st = None" and "scannerRef st = Some h"
  shows "(\<not> (\<exists>b kvs sid ts. atob rt decodedText = Inr b \<and> JSON_parse rt b = Inr (JObj kvs)
               \<and> map_of kvs ''studentId'' = Some sid \<and> truthy sid
               \<and> map_of kvs ''timestamp'' = Some ts \<and> truthy ts) \<longrightarrow>
          qrCodeSuccessCallback rt now decodedText st =
            Inr (st\<lparr>scanner_calls := scanner_calls st @ [Pause h],
                    scanResult := Some (ScanError invalid_format_message)\<rparr>))
       \<and> (atob rt decodedText = Inr b \<and> JSON_parse rt b = Inr (JObj kvs)
            \<and> map_of kvs ''studentId'' = Some sid \<and> truthy sid
            \<and> map_of kvs ''timestamp'' = Some (JNum n) \<and> n \<noteq> 0
            \<and> real_of_int now - n \<le> 60000 \<longrightarrow>
          qrCodeSuccessCallback rt now decodedText st =
            Inr (st\<lparr>scanner_calls := scanner_calls st @ [Pause h],
                    onScanSuccess_calls := onScanSuccess_calls st @ [sid]\<rparr>))
       \<and> (atob rt decodedText = Inr b \<and> JSON_parse rt b = Inr (JObj kvs)
            \<and> map_of kvs ''studentId'' = Some sid \<and> truthy sid
            \<and> map_of kvs ''timestamp'' = Some (JNum n) \<and> n \<noteq> 0
            \<and> 60001 \<le> real_of_int now - n \<longrightarrow>
          qrCodeSuccessCallback rt now decodedText st =
            Inr (st\<lparr>scanner_calls := scanner_calls st @ [Pause h],
                    scanResult := Some (ScanError expired_message)\<rparr>))"
proof (intro conjI impI)
  assume "\<not> (\<exists>b kvs sid ts. atob rt decodedText = Inr b \<and> JSON_parse rt b = Inr (JObj kvs)
               \<and> map_of kvs ''studentId'' = Some sid \<and> truthy sid
               \<and> map_of kvs ''timestamp'' = Some ts \<and> truthy ts)"
  then have "\<exists>e. scan_try_block rt now decodedText = Inl e"
    by (rule try_block_other_shape)
  then obtain e where "scan_try_block rt now decodedText = Inl e" ..
  with assms show "qrCodeSuccessCallback rt now decodedText st =
            Inr (st\<lparr>scanner_calls := scanner_calls st @ [Pause h],
                    scanResult := Some (ScanError invalid_format_message)\<rparr>)"
    by (simp add: callback_scanning)
next
  assume ok: "atob rt decodedText = Inr b \<and> JSON_parse rt b = Inr (JObj kvs)
            \<and> map_of kvs ''studentId'' = Some sid \<and> truthy sid
            \<and> map_of kvs ''timestamp'' = Some (JNum n) \<and> n \<noteq> 0
            \<and> real_of_int now - n \<le> 60000"
  from ok have "atob rt decodedText = Inr b" and "JSON_parse rt b = Inr (JObj kvs)"
    and "map_of kvs ''studentId'' = Some sid" and "truthy sid"
    and "map_of kvs ''timestamp'' = Some (JNum n)" and "n \<noteq> 0"
    and "real_of_int now - n \<le> 60000"
    by simp_all
  then have "scan_try_block rt now decodedText = Inr (Accepted sid)"
    by (rule try_block_fresh)
  with assms show "qrCodeSuccessCallback rt now decodedText st =
            Inr (st\<lparr>scanner_calls := scanner_calls st @ [Pause h],
                    onScanSuccess_calls := onScanSuccess_calls st @ [sid]\<rparr>)"
    by (simp add: callback_scanning)
next
  assume old: "atob rt decodedText = Inr b \<and> JSON_parse rt b = Inr (JObj kvs)
            \<and> map_of kvs ''studentId'' = Some sid \<and> truthy sid
            \<and> map_of kvs ''timestamp'' = Some (JNum n) \<and> n \<noteq> 0
            \<and> 60001 \<le> real_of_int now - n"
  from old have "atob rt decodedText = Inr b" and "JSON_parse rt b = Inr (JObj kvs)"
    and "map_of kvs ''studentId'' = Some sid" and "truthy sid"
    and "map_of kvs ''timestamp'' = Some (JNum n)" and "n \<noteq> 0"
    and "60001 \<le> real_of_int now - n"
    by simp_all
  then have "scan_try_block rt now decodedText = Inr Expired"
    by (rule try_block_expired)
  with assms show "qrCodeSuccessCallback rt now decodedText st =
            Inr (st\<lparr>scanner_calls := scanner_calls st @ [Pause h],
                    scanResult := Some (ScanError expired_message)\<rparr>)"
    by (simp add: callback_scanning)
qed

text \<open>
  The number 42 as student identifier with a timestamp that is not an integer is
  accepted; a JSON array is the format error.
\<close>

theorem validation_checks_presence_not_type_witness:
  "qrCodeSuccessCallback
      (constant_runtime (Inr ''{\"studentId\":42,\"timestamp\":1700000000000.5}'')
         (Inr (JObj [(''studentId'', JNum 42), (''timestamp'', JNum (3400000000001 / 2))]))
         (Inr None))
      1700000001000 ''payload'' (scannerEffect True initial_scanner)
    = Inr \<lparr>scanResult = None, scannerRef = Some 0,
           readerRef = True, instances = 1, scanner_calls = [New 0, Start 0, Pause 0],
           onScanSuccess_calls = [JNum 42], effect_cleanup = True\<rparr>
   \<and> qrCodeSuccessCallback
      (constant_runtime (Inr ''[\"s1\",1700000000000]'')
         (Inr (JArr [JStr ''s1'', JNum 1700000000000])) (Inr None))
      1700000001000 ''payload'' (scannerEffect True initial_scanner)
    = Inr \<lparr>scanResult = Some (ScanError invalid_format_message), scannerRef = Some 0,
           readerRef = True, instances = 1, scanner_calls = [New 0, Start 0, Pause 0],
           onScanSuccess_calls = [], effect_cleanup = True\<rparr>"
  using validation_checks_presence_not_type
          [of "scannerEffect True initial_scanner" 0
              "constant_runtime (Inr ''{\"studentId\":42,\"timestamp\":1700000000000.5}'')
                 (Inr (JObj [(''studentId'', JNum 42), (''timestamp'', JNum (3400000000001 / 2))]))
                 (Inr None)"
              "''payload''" 1700000001000
              "''{\"studentId\":42,\"timestamp\":1700000000000.5}''"
              "[(''studentId'', JNum 42), (''timestamp'', JNum (3400000000001 / 2))]"
              "JNum 42" "3400000000001 / 2"]
        validation_checks_presence_not_type
          [of "scannerEffect True initial_scanner" 0
              "constant_runtime (Inr ''[\"s1\",1700000000000]'')
                 (Inr (JArr [JStr ''s1'', JNum 1700000000000])) (Inr None)"
              "''payload''" 1700000001000
              "''[\"s1\",1700000000000]''" "[]" "JNum 42" 1]
  by (simp add: scannerEffect_def initial_scanner_def)

text \<open>
  A payload whose student identifier is the number 42, and a payload whose timestamp is
  1700000000000.5: both are passed to \<open>onScanSuccess\<close>.
\<close>

theorem untyped_payload_counterexample:
  "qrCodeSuccessCallback
      (constant_runtime (Inr ''{\"studentId\":42,\"timestamp\":1700000000000}'')
         (Inr (JObj [(''studentId'', JNum 42), (''timestamp'', JNum 1700000000000)]))
         (Inr None))
      1700000001000 ''payload'' (scannerEffect True initial_scanner)
    = Inr \<lparr>scanResult = None, scannerRef = Some 0,
           readerRef = True, instances = 1, scanner_calls = [New 0, Start 0, Pause 0],
           onScanSuccess_calls = [JNum 42], effect_cleanup = True\<rparr>
   \<and> qrCodeSuccessCallback
      (constant_runtime (Inr ''{\"studentId\":\"s1\",\"timestamp\":1700000000000.5}'')
         (Inr (JObj [(''studentId'', JStr ''s1''), (''timestamp'', JNum (3400000000001 / 2))]))
         (Inr None))
      1700000001000 ''payload'' (scannerEffect True initial_scanner)
    = Inr \<lparr>scanResult = None, scannerRef = Some 0,
           readerRef = True, instances = 1, scanner_calls = [New 0, Start 0, Pause 0],
           onScanSuccess_calls = [JStr ''s1''], effect_cleanup = True\<rparr>"
proof -
  have "scan_try_block
      (constant_runtime (Inr ''{\"studentId\":42,\"timestamp\":1700000000000}'')
         (Inr (JObj [(''studentId'', JNum 42), (''timestamp'', JNum 1700000000000)]))
         (Inr None))
      1700000001000 ''payload'' = Inr (Accepted (JNum 42))"
    by (rule try_block_fresh
          [where b = "''{\"studentId\":42,\"timestamp\":1700000000000}''"
             and kvs = "[(''studentId'', JNum 42), (''timestamp'', JNum 1700000000000)]"
             and n = 1700000000000])
       simp_all
  moreover have "scan_try_block
      (constant_runtime (Inr ''{\"studentId\":\"s1\",\"timestamp\":1700000000000.5}'')
         (Inr (JObj [(''studentId'', JStr ''s1''), (''timestamp'', JNum (3400000000001 / 2))]))
         (Inr None))
      1700000001000 ''payload'' = Inr (Accepted (JStr ''s1''))"
    by (rule try_block_fresh
          [where b = "''{\"studentId\":\"s1\",\"timestamp\":1700000000000.5}''"
             and kvs = "[(''studentId'', JStr ''s1''), (''timestamp'', JNum (3400000000001 / 2))]"
             and n = "3400000000001 / 2"])
       simp_all
  ultimately show ?thesis
    by (simp add: qrCodeSuccessCallback_def scannerEffect_def initial_scanner_def Let_def)
qed

subsection \<open>Retry\<close>

text \<open>What the handler itself does in a session that shows an error and holds the
  scanner object \<open>h\<close>: it clears the error and calls \<open>resume\<close> on \<open>h\<close>, nothing else.\<close>

lemma handleRetry_resumes:
  assumes "scanResult st = Some err" and "scannerRef st = Some h"
  shows "handleRetry st = st\<lparr>scanResult := None, scanner_calls := scanner_calls st @ [Resume h]\<rparr>"
  using assms by (simp add: handleRetry_def)

text \<open>
  The effect run that follows, when the latest run of the effect left its cleanup and
  the scanner object answers that it is scanning: the cleanup stops \<open>h\<close> and empties
  \<open>scannerRef\<close>, so the guard of the effect lets the body through, which makes and starts
  another scanner object.
\<close>

lemma retry_then_effect:
  assumes "scanResult st = Some err" and "scannerRef st = Some h"
    and "effect_cleanup st" and "readerRef st"
  shows "effect_rerun True True (handleRetry st) =
           st\<lparr>scanResult := None, scannerRef := Some (instances st),
              instances := Suc (instances st),
              scanner_calls := scanner_calls st @
                 [Resume h, Stop h, New (instances st), Start (instances st)],
              effect_cleanup := True\<rparr>"
  using assms
  by (simp add: handleRetry_resumes [OF assms(1,2)] effect_rerun_def scannerCleanup_def
        scannerEffect_def Let_def)

text \<open>
  Claim C6 does not hold of the component. The session is started, a scanned text that
  is not base64 puts it into the format-error state, and Scan Again is pressed; the
  scanning library is one that answers \<^verbatim>\<open>isScanning\<close> with true for a scanner that was
  started and not stopped, paused or not. The effect depends on \<open>scanResult\<close>, so it
  runs again when the error is set and when retry clears it; each time its cleanup stops
  the scanner and empties \<open>scannerRef\<close>, and its body makes and starts a new one. After
  retry the session holds the scanner object 2, not the object 0 that was started with
  the session, and the camera has been opened three times.
\<close>

theorem retry_creates_a_new_scanner:
  "qrCodeSuccessCallback
      (constant_runtime (Inl InvalidCharacterError) (Inl SyntaxError) (Inr None))
      1700000001000 ''not base64!'' (scannerEffect True initial_scanner)
    = Inr \<lparr>scanResult = Some (ScanError invalid_format_message), scannerRef = Some 0,
           readerRef = True, instances = 1, scanner_calls = [New 0, Start 0, Pause 0],
           onScanSuccess_calls = [], effect_cleanup = True\<rparr>
   \<and> effect_rerun True True
        \<lparr>scanResult = Some (ScanError invalid_format_message), scannerRef = Some 0,
         readerRef = True, instances = 1, scanner_calls = [New 0, Start 0, Pause 0],
         onScanSuccess_calls = [], effect_cleanup = True\<rparr>
    = \<lparr>scanResult = Some (ScanError invalid_format_message), scannerRef = Some 1,
       readerRef = True, instances = 2,
       scanner_calls = [New 0, Start 0, Pause 0, Stop 0, New 1, Start 1],
       onScanSuccess_calls = [], effect_cleanup = True\<rparr>
   \<and> effect_rerun True True
        (handleRetry
           \<lparr>scanResult = Some (ScanError invalid_format_message), scannerRef = Some 1,
            readerRef = True, instances = 2,
            scanner_calls = [New 0, Start 0, Pause 0, Stop 0, New 1, Start 1],
            onScanSuccess_calls = [], effect_cleanup = True\<rparr>)
    = \<lparr>scanResult = None, scannerRef = Some 2, readerRef = True, instances = 3,
       scanner_calls = [New 0, Start 0, Pause 0, Stop 0, New 1, Start 1,
                        Resume 1, Stop 1, New 2, Start 2],
       onScanSuccess_calls = [], effect_cleanup = True\<rparr>"
  by (simp add: qrCodeSuccessCallback_def scan_try_block_def scannerEffect_def
        initial_scanner_def effect_rerun_def scannerCleanup_def handleRetry_def Let_def)

text \<open>
  The last step alone: after retry the cleanup has emptied \<open>scannerRef\<close>, the guard of
  the effect lets the body through, and the session holds the scanner object 2.
\<close>

theorem retry_creates_a_new_scanner_witness:
  "scannerRef
     (scannerCleanup True
        (handleRetry
           \<lparr>scanResult = Some (ScanError invalid_format_message), scannerRef = Some 1,
            readerRef = True, instances = 2,
            scanner_calls = [New 0, Start 0, Pause 0, Stop 0, New 1, Start 1],
            onScanSuccess_calls = [], effect_cleanup = True\<rparr>)) = None
   \<and> scannerRef
     (effect_rerun True True
        (handleRetry
           \<lparr>scanResult = Some (ScanError invalid_format_message), scannerRef = Some 1,
            readerRef = True, instances = 2,
            scanner_calls = [New 0, Start 0, Pause 0, Stop 0, New 1, Start 1],
            onScanSuccess_calls = [], effect_cleanup = True\<rparr>)) = Some 2
   \<and> instances
     (effect_rerun True True
        (handleRetry
           \<lparr>scanResult = Some (ScanError invalid_format_message), scannerRef = Some 1,
            readerRef = True, instances = 2,
            scanner_calls = [New 0, Start 0, Pause 0, Stop 0, New 1, Start 1],
            onScanSuccess_calls = [], effect_cleanup = True\<rparr>)) = 3"
  using retry_creates_a_new_scanner
  by (simp add: scannerCleanup_def handleRetry_def)

section \<open>Properties of the AI advisory service\<close>

subsection \<open>Failure of the remote call\<close>

text \<open>
  The outcome of a structured operation, case by case: the preparation throws, the
  remote call fails, the reply has no text, the trimmed text is not JSON, the trimmed
  text is JSON.
\<close>

lemma advisory_outcome:
  "catch_return_null (advisory_try_block prepare generateContent trim parse input) =
     (case prepare input of
        Inl e \<Rightarrow> Inr JNull
      | Inr request \<Rightarrow>
          (case generateContent request of
             Inl e \<Rightarrow> Inr JNull
           | Inr response \<Rightarrow>
               (case response_text response of
                  None \<Rightarrow> Inr JNull
                | Some t \<Rightarrow>
                    (case parse (trim t) of Inl e \<Rightarrow> Inr JNull | Inr v \<Rightarrow> Inr v))))"
  by (simp add: catch_return_null_def advisory_try_block_def split: sum.splits option.splits)

lemma chat_reply:
  "fst (getChatbotResponse sendMessage prompt history ctxt lang st) =
     Inr (JStr (case sendMessage (fst (chat_session history ctxt lang st)) prompt of
                  Inl e \<Rightarrow> trouble_message
                | Inr result \<Rightarrow>
                    (case response_text result of
                       None \<Rightarrow> no_response_message
                     | Some t \<Rightarrow> if t = [] then no_response_message else t)))"
  by (simp add: getChatbotResponse_def Let_def split: prod.splits sum.splits option.splits)

text \<open>
  Claim C8, as the service has it. No operation throws to its caller. Each of the six
  structured operations returns \<^verbatim>\<open>null\<close> when the preparation of the request throws, when
  the remote call fails, when the reply has no text and when the trimmed text of the
  reply is not JSON, and returns the parsed value of the trimmed text otherwise. The chat
  operation never returns \<^verbatim>\<open>null\<close>: it returns a string, which is the fixed apology
  \<open>trouble_message\<close> when the remote call fails, the fixed apology
  \<open>no_response_message\<close> when the reply has no text or an empty one, and the text of
  the reply otherwise.
\<close>

theorem advisory_failure_is_null_or_apology:
  "generatePersonalizedLearningPath prepare_a remote_a trim parse student_a =
     (case prepare_a student_a of
        Inl e \<Rightarrow> Inr JNull
      | Inr request \<Rightarrow>
          (case remote_a request of
             Inl e \<Rightarrow> Inr JNull
           | Inr response \<Rightarrow>
               (case response_text response of
                  None \<Rightarrow> Inr JNull
                | Some t \<Rightarrow>
                    (case parse (trim t) of Inl e \<Rightarrow> Inr JNull | Inr v \<Rightarrow> Inr v))))
   \<and> generateStudentInitiatedLearningPath prepare_b remote_b trim parse formData name_b =
     (case prepare_b (formData, name_b) of
        Inl e \<Rightarrow> Inr JNull
      | Inr request \<Rightarrow>
          (case remote_b request of
             Inl e \<Rightarrow> Inr JNull
           | Inr response \<Rightarrow>
               (case response_text response of
                  None \<Rightarrow> Inr JNull
                | Some t \<Rightarrow>
                    (case parse (trim t) of Inl e \<Rightarrow> Inr JNull | Inr v \<Rightarrow> Inr v))))
   \<and> predictStudentPerformance prepare_c remote_c trim parse student_c =
     (case prepare_c student_c of
        Inl e \<Rightarrow> Inr JNull
      | Inr request \<Rightarrow>
          (case remote_c request of
             Inl e \<Rightarrow> Inr JNull
           | Inr response \<Rightarrow>
               (case response_text response of
                  None \<Rightarrow> Inr JNull
                | Some t \<Rightarrow>
                    (case parse (trim t) of Inl e \<Rightarrow> Inr JNull | Inr v \<Rightarrow> Inr v))))
   \<and> generateProgressInsights prepare_d remote_d trim parse progressData name_d =
     (case prepare_d (progressData, name_d) of
        Inl e \<Rightarrow> Inr JNull
      | Inr request \<Rightarrow>
          (case remote_d request of
             Inl e \<Rightarrow> Inr JNull
           | Inr response \<Rightarrow>
               (case response_text response of
                  None \<Rightarrow> Inr JNull
                | Some t \<Rightarrow>
                    (case parse (trim t) of Inl e \<Rightarrow> Inr JNull | Inr v \<Rightarrow> Inr v))))
   \<and> generateActivitySuggestions prepare_e remote_e trim parse student_e =
     (case prepare_e student_e of
        Inl e \<Rightarrow> Inr JNull
      | Inr request \<Rightarrow>
          (case remote_e request of
             Inl e \<Rightarrow> Inr JNull
           | Inr response \<Rightarrow>
               (case response_text response of
                  None \<Rightarrow> Inr JNull
                | Some t \<Rightarrow>
                    (case parse (trim t) of Inl e \<Rightarrow> Inr JNull | Inr v \<Rightarrow> Inr v))))
   \<and> verifyFaceMatch prepare_f remote_f trim parse registered live =
     (case prepare_f (registered, live) of
        Inl e \<Rightarrow> Inr JNull
      | Inr request \<Rightarrow>
          (case remote_f request of
             Inl e \<Rightarrow> Inr JNull
           | Inr response \<Rightarrow>
               (case response_text response of
                  None \<Rightarrow> Inr JNull
                | Some t \<Rightarrow>
                    (case parse (trim t) of Inl e \<Rightarrow> Inr JNull | Inr v \<Rightarrow> Inr v))))
   \<and> fst (getChatbotResponse sendMessage prompt history ctxt lang st) =
       Inr (JStr (case sendMessage (fst (chat_session history ctxt lang st)) prompt of
                    Inl e \<Rightarrow> trouble_message
                  | Inr result \<Rightarrow>
                      (case response_text result of
                         None \<Rightarrow> no_response_message
                       | Some t \<Rightarrow> if t = [] then no_response_message else t)))"
  unfolding generatePersonalizedLearningPath_def generateStudentInitiatedLearningPath_def
    predictStudentPerformance_def generateProgressInsights_def generateActivitySuggestions_def
    verifyFaceMatch_def
  by (intro conjI advisory_outcome chat_reply)

text \<open>
  A learning path request whose remote call fails, a prediction whose reply has no
  text, and progress insights whose reply is not JSON all give \<^verbatim>\<open>null\<close>; a face match
  whose reply is the JSON text \<open>true\<close> between blanks gives the parsed value.
\<close>

theorem advisory_failure_is_null_or_apology_witness:
  "generatePersonalizedLearningPath Inr failing_remote trim_blanks parse_true ''student 7''
     = Inr JNull
   \<and> predictStudentPerformance Inr (replying_remote None) trim_blanks parse_true ''student 7''
     = Inr JNull
   \<and> generateProgressInsights Inr (replying_remote (Some ''Here is your plan''))
        trim_blanks parse_true ''progress'' ''Asha''
     = Inr JNull
   \<and> verifyFaceMatch Inr (replying_remote (Some ''  true '')) trim_blanks parse_true
        ''img1'' ''img2''
     = Inr (JBool True)"
  using advisory_failure_is_null_or_apology
          [where prepare_a = Inr and remote_a = failing_remote and student_a = "''student 7''"
             and trim = trim_blanks and parse = parse_true, THEN conjunct1]
        advisory_failure_is_null_or_apology
          [where prepare_c = Inr and remote_c = "replying_remote None"
             and student_c = "''student 7''"
             and trim = trim_blanks and parse = parse_true,
           THEN conjunct2, THEN conjunct2, THEN conjunct1]
        advisory_failure_is_null_or_apology
          [where prepare_d = Inr and remote_d = "replying_remote (Some ''Here is your plan'')"
             and progressData = "''progress''" and name_d = "''Asha''"
             and trim = trim_blanks and parse = parse_true,
           THEN conjunct2, THEN conjunct2, THEN conjunct2, THEN conjunct1]
        advisory_failure_is_null_or_apology
          [where prepare_f = Inr and remote_f = "replying_remote (Some ''  true '')"
             and registered = "''img1''" and live = "''img2''"
             and trim = trim_blanks and parse = parse_true,
           THEN conjunct2, THEN conjunct2, THEN conjunct2, THEN conjunct2, THEN conjunct2,
           THEN conjunct1]
  by (simp add: failing_remote_def replying_remote_def trim_blanks_def parse_true_def)

text \<open>
  A chat call whose remote call fails with a network error returns the apology string,
  which is not \<^verbatim>\<open>null\<close>.
\<close>

theorem chat_failure_counterexample:
  "fst (chat_call_result
          \<lparr>call_prompt = ''What is my attendance?'', call_history = [],
           call_context = ''Student dashboard'', call_lang = ''en-IN'',
           call_outcome = Inl (RemoteError ''network'')\<rparr> initial_chat_service)
     = Inr (JStr trouble_message)
   \<and> JStr trouble_message \<noteq> JNull"
  by (simp add: chat_call_result_def getChatbotResponse_def chat_session_def
        initial_chat_service_def Let_def)

subsection \<open>Chat sessions\<close>

lemma chat_step_cached:
  assumes "chatHistories st (historyKey (call_lang c) (call_context c)) = Some chat"
  shows "chat_step st c =
           st\<lparr>sendMessage_calls := sendMessage_calls st @ [(chat_id chat, call_prompt c)]\<rparr>"
  using assms by (simp add: chat_step_def chat_call_result_def getChatbotResponse_def chat_session_def)

lemma chat_step_fresh:
  assumes "chatHistories st (historyKey (call_lang c) (call_context c)) = None"
  shows "\<exists>chat. chat_id chat = chats_created st \<and>
           chat_step st c =
             st\<lparr>chats_created := Suc (chats_created st),
                chatHistories := (chatHistories st)(historyKey (call_lang c) (call_context c) \<mapsto> chat),
                sendMessage_calls := sendMessage_calls st @ [(chats_created st, call_prompt c)]\<rparr>"
proof -
  let ?chat = "\<lparr>chat_id = chats_created st,
                instruction_lang = call_lang c,
                instruction_context = call_context c,
                initial_history =
                  map (\<lambda>msg. (if sender msg = ''user'' then ''user'' else ''model'',
                               message_text msg)) (call_history c)\<rparr>"
  have "chat_id ?chat = chats_created st" by simp
  moreover have "chat_step st c =
             st\<lparr>chats_created := Suc (chats_created st),
                chatHistories := (chatHistories st)(historyKey (call_lang c) (call_context c) \<mapsto> ?chat),
                sendMessage_calls := sendMessage_calls st @ [(chats_created st, call_prompt c)]\<rparr>"
    using assms by (simp add: chat_step_def chat_call_result_def getChatbotResponse_def chat_session_def Let_def)
  ultimately show ?thesis by blast
qed

lemma run_chat_snoc: "run_chat (calls @ [c]) st = chat_step (run_chat calls st) c"
  by (simp add: run_chat_def)

text \<open>
  After any sequence of calls from the empty cache: every call has one entry in the log;
  the session a call used is the one the cache holds for the key of that call; the
  identity of a cached session is below the number of sessions made; and two keys never
  hold sessions of the same identity.
\<close>

lemma run_chat_invariant:
  "length (sendMessage_calls (run_chat calls initial_chat_service)) = length calls
   \<and> (\<forall>i < length calls. \<exists>chat.
         chatHistories (run_chat calls initial_chat_service)
           (historyKey (call_lang (calls ! i)) (call_context (calls ! i))) = Some chat
         \<and> chat_id chat = fst (sendMessage_calls (run_chat calls initial_chat_service) ! i))
   \<and> (\<forall>k chat. chatHistories (run_chat calls initial_chat_service) k = Some chat
         \<longrightarrow> chat_id chat < chats_created (run_chat calls initial_chat_service))
   \<and> (\<forall>k k' chat chat'.
         chatHistories (run_chat calls initial_chat_service) k = Some chat
         \<and> chatHistories (run_chat calls initial_chat_service) k' = Some chat'
         \<and> chat_id chat = chat_id chat' \<longrightarrow> k = k')"
proof (induction calls rule: rev_induct)
  case Nil
  show ?case by (simp add: run_chat_def initial_chat_service_def)
next
  case (snoc c calls)
  let ?st = "run_chat calls initial_chat_service"
  let ?st' = "run_chat (calls @ [c]) initial_chat_service"
  let ?key = "historyKey (call_lang c) (call_context c)"
  from snoc.IH have len: "length (sendMessage_calls ?st) = length calls"
    and used: "\<And>i. i < length calls \<Longrightarrow> \<exists>chat.
         chatHistories ?st (historyKey (call_lang (calls ! i)) (call_context (calls ! i))) = Some chat
         \<and> chat_id chat = fst (sendMessage_calls ?st ! i)"
    and bound: "\<And>k chat. chatHistories ?st k = Some chat \<Longrightarrow> chat_id chat < chats_created ?st"
    and inj: "\<And>k k' chat chat'. chatHistories ?st k = Some chat \<Longrightarrow>
                chatHistories ?st k' = Some chat' \<Longrightarrow> chat_id chat = chat_id chat' \<Longrightarrow> k = k'"
    by blast+
  have "\<exists>chat. chatHistories ?st' = (chatHistories ?st)(?key \<mapsto> chat)
          \<and> chat_id chat < chats_created ?st'
          \<and> chats_created ?st \<le> chats_created ?st'
          \<and> (chatHistories ?st ?key = None \<longrightarrow> chat_id chat = chats_created ?st)
          \<and> (chatHistories ?st ?key \<noteq> None \<longrightarrow> chatHistories ?st ?key = Some chat)
          \<and> sendMessage_calls ?st' = sendMessage_calls ?st @ [(chat_id chat, call_prompt c)]"
  proof (cases "chatHistories ?st ?key")
    case (Some chat)
    then have "?st' = ?st\<lparr>sendMessage_calls := sendMessage_calls ?st @ [(chat_id chat, call_prompt c)]\<rparr>"
      unfolding run_chat_snoc by (rule chat_step_cached)
    moreover have "(chatHistories ?st)(?key \<mapsto> chat) = chatHistories ?st"
      using Some by (simp add: fun_upd_idem)
    moreover have "chat_id chat < chats_created ?st" using Some by (rule bound)
    ultimately show ?thesis using Some
      by (intro exI [of _ chat]) simp
  next
    case None
    from chat_step_fresh [OF None] obtain chat where
      "chat_id chat = chats_created ?st"
      "?st' = ?st\<lparr>chats_created := Suc (chats_created ?st),
            chatHistories := (chatHistories ?st)(?key \<mapsto> chat),
            sendMessage_calls := sendMessage_calls ?st @ [(chats_created ?st, call_prompt c)]\<rparr>"
      unfolding run_chat_snoc by (elim exE conjE)
    then show ?thesis using None
      by (intro exI [of _ chat]) simp
  qed
  then obtain chat where step:
    "chatHistories ?st' = (chatHistories ?st)(?key \<mapsto> chat)
          \<and> chat_id chat < chats_created ?st'
          \<and> chats_created ?st \<le> chats_created ?st'
          \<and> (chatHistories ?st ?key = None \<longrightarrow> chat_id chat = chats_created ?st)
          \<and> (chatHistories ?st ?key \<noteq> None \<longrightarrow> chatHistories ?st ?key = Some chat)
          \<and> sendMessage_calls ?st' = sendMessage_calls ?st @ [(chat_id chat, call_prompt c)]" ..
  from step have cache: "chatHistories ?st' = (chatHistories ?st)(?key \<mapsto> chat)"
    by (elim conjE)
  from step have below: "chat_id chat < chats_created ?st'"
    by (elim conjE)
  from step have mono: "chats_created ?st \<le> chats_created ?st'"
    by (elim conjE)
  from step have "chatHistories ?st ?key = None \<longrightarrow> chat_id chat = chats_created ?st"
    by (elim conjE)
  then have fresh: "chatHistories ?st ?key = None \<Longrightarrow> chat_id chat = chats_created ?st"
    by (rule mp)
  from step have "chatHistories ?st ?key \<noteq> None \<longrightarrow> chatHistories ?st ?key = Some chat"
    by (elim conjE)
  then have cached: "chatHistories ?st ?key \<noteq> None \<Longrightarrow> chatHistories ?st ?key = Some chat"
    by (rule mp)
  from step have log: "sendMessage_calls ?st' = sendMessage_calls ?st @ [(chat_id chat, call_prompt c)]"
    by (elim conjE)
  have keep: "chatHistories ?st' k = Some x" if "chatHistories ?st k = Some x" for k x
  proof (cases "k = ?key")
    case True
    with that cached have "chatHistories ?st ?key = Some chat" by simp
    with that True show ?thesis by (simp add: cache)
  next
    case False
    with that show ?thesis by (simp add: cache)
  qed
  have origin: "x = chat \<or> chatHistories ?st k = Some x" if "chatHistories ?st' k = Some x" for k x
    using that by (simp add: cache split: if_splits)
  have c1: "length (sendMessage_calls ?st') = length (calls @ [c])"
    by (simp add: log len)
  have c2: "\<forall>i < length (calls @ [c]). \<exists>x.
         chatHistories ?st'
           (historyKey (call_lang ((calls @ [c]) ! i)) (call_context ((calls @ [c]) ! i))) = Some x
         \<and> chat_id x = fst (sendMessage_calls ?st' ! i)"
  proof (intro allI impI)
    fix i assume i: "i < length (calls @ [c])"
    show "\<exists>x. chatHistories ?st'
           (historyKey (call_lang ((calls @ [c]) ! i)) (call_context ((calls @ [c]) ! i))) = Some x
         \<and> chat_id x = fst (sendMessage_calls ?st' ! i)"
    proof (cases "i < length calls")
      case True
      from used [OF True] obtain x where
        x: "chatHistories ?st (historyKey (call_lang (calls ! i)) (call_context (calls ! i))) = Some x"
          "chat_id x = fst (sendMessage_calls ?st ! i)"
        by blast
      from x(1) have "chatHistories ?st' (historyKey (call_lang (calls ! i)) (call_context (calls ! i))) = Some x"
        by (rule keep)
      moreover have "(calls @ [c]) ! i = calls ! i" using True by (simp add: nth_append)
      moreover have "sendMessage_calls ?st' ! i = sendMessage_calls ?st ! i"
        using True len by (simp add: log nth_append)
      ultimately show ?thesis using x(2) by auto
    next
      case False
      with i have eq: "i = length calls" by simp
      have "(calls @ [c]) ! i = c" using eq by simp
      moreover have "sendMessage_calls ?st' ! i = (chat_id chat, call_prompt c)"
        using eq len by (simp add: log nth_append)
      moreover have "chatHistories ?st' ?key = Some chat" by (simp add: cache)
      ultimately show ?thesis by auto
    qed
  qed
  have c3: "\<forall>k x. chatHistories ?st' k = Some x \<longrightarrow> chat_id x < chats_created ?st'"
  proof (intro allI impI)
    fix k x assume "chatHistories ?st' k = Some x"
    then have "x = chat \<or> chatHistories ?st k = Some x" by (rule origin)
    then show "chat_id x < chats_created ?st'"
    proof
      assume "x = chat" with below show ?thesis by simp
    next
      assume "chatHistories ?st k = Some x"
      then have "chat_id x < chats_created ?st" by (rule bound)
      with mono show ?thesis by simp
    qed
  qed
  have c4: "\<forall>k k' x y. chatHistories ?st' k = Some x \<and> chatHistories ?st' k' = Some y
               \<and> chat_id x = chat_id y \<longrightarrow> k = k'"
  proof (intro allI impI, elim conjE)
    fix k k' x y
    assume kx: "chatHistories ?st' k = Some x" and ky: "chatHistories ?st' k' = Some y"
      and ids: "chat_id x = chat_id y"
    show "k = k'"
    proof (cases "chatHistories ?st ?key")
      case (Some z)
      then have "chatHistories ?st ?key = Some chat" using cached by simp
      then have "chatHistories ?st' = chatHistories ?st" by (simp add: cache fun_upd_idem)
      with kx ky ids show ?thesis using inj by simp
    next
      case None
      then have new: "chat_id chat = chats_created ?st" by (rule fresh)
      have old: "chat_id z \<noteq> chat_id chat" if "chatHistories ?st q = Some z" for q z
        using bound [OF that] new by simp
      show ?thesis
      proof (cases "k = ?key")
        case True
        with kx have x: "x = chat" by (simp add: cache)
        show ?thesis
        proof (cases "k' = ?key")
          case True with \<open>k = ?key\<close> show ?thesis by simp
        next
          case False
          with ky have "chatHistories ?st k' = Some y" by (simp add: cache)
          then have "chat_id y \<noteq> chat_id chat" by (rule old)
          with ids x show ?thesis by simp
        qed
      next
        case False
        with kx have kx': "chatHistories ?st k = Some x" by (simp add: cache)
        show ?thesis
        proof (cases "k' = ?key")
          case True
          with ky have "y = chat" by (simp add: cache)
          moreover from kx' have "chat_id x \<noteq> chat_id chat" by (rule old)
          ultimately show ?thesis using ids by simp
        next
          case False
          with ky have "chatHistories ?st k' = Some y" by (simp add: cache)
          with kx' show ?thesis using ids by (rule inj)
        qed
      qed
    qed
  qed
  from c1 c2 c3 c4 show ?case by (intro conjI)
qed

lemma historyKey_eq_iff:
  assumes "length lang = length lang'"
  shows "historyKey lang ctxt = historyKey lang' ctxt' \<longleftrightarrow> lang = lang' \<and> take 20 ctxt = take 20 ctxt'"
  using assms by (auto simp add: historyKey_def)

text \<open>
  Claim C9, as the service has it. The cache is keyed by the string made of the
  language and the first 20 characters of the context. In any sequence of chat calls
  that starts with the empty cache, two calls use the same session exactly when their
  keys are equal: in particular they do when their languages are equal and their
  contexts agree on the first 20 characters, even if the contexts differ later; and for
  languages of equal length (as the tags \<open>en-IN\<close>, \<open>hi-IN\<close>, \<open>mr-IN\<close> are), they use
  different sessions when the languages differ or the contexts differ within their first
  20 characters. So a call whose key differs from the key of every earlier call uses a
  session that no earlier call used.
\<close>

theorem chat_sessions_keyed_by_language_and_prefix:
  assumes "i < length calls" and "j < length calls"
  shows "(sessions_used calls ! i = sessions_used calls ! j
            \<longleftrightarrow> historyKey (call_lang (calls ! i)) (call_context (calls ! i))
                = historyKey (call_lang (calls ! j)) (call_context (calls ! j)))
       \<and> (call_lang (calls ! i) = call_lang (calls ! j)
            \<and> take 20 (call_context (calls ! i)) = take 20 (call_context (calls ! j))
          \<longrightarrow> sessions_used calls ! i = sessions_used calls ! j)
       \<and> (length (call_lang (calls ! i)) = length (call_lang (calls ! j))
            \<and> (call_lang (calls ! i) \<noteq> call_lang (calls ! j)
                \<or> take 20 (call_context (calls ! i)) \<noteq> take 20 (call_context (calls ! j)))
          \<longrightarrow> sessions_used calls ! i \<noteq> sessions_used calls ! j)"
proof -
  let ?st = "run_chat calls initial_chat_service"
  let ?ki = "historyKey (call_lang (calls ! i)) (call_context (calls ! i))"
  let ?kj = "historyKey (call_lang (calls ! j)) (call_context (calls ! j))"
  from run_chat_invariant [of calls]
  have len: "length (sendMessage_calls ?st) = length calls"
    and used: "\<And>i. i < length calls \<Longrightarrow> \<exists>chat.
         chatHistories ?st (historyKey (call_lang (calls ! i)) (call_context (calls ! i))) = Some chat
         \<and> chat_id chat = fst (sendMessage_calls ?st ! i)"
    and inj: "\<And>k k' chat chat'. chatHistories ?st k = Some chat \<Longrightarrow>
                chatHistories ?st k' = Some chat' \<Longrightarrow> chat_id chat = chat_id chat' \<Longrightarrow> k = k'"
    by blast+
  from used [OF assms(1)] obtain a where
    a: "chatHistories ?st ?ki = Some a" "chat_id a = fst (sendMessage_calls ?st ! i)" by blast
  from used [OF assms(2)] obtain b where
    b: "chatHistories ?st ?kj = Some b" "chat_id b = fst (sendMessage_calls ?st ! j)" by blast
  have ids: "sessions_used calls ! i = chat_id a" "sessions_used calls ! j = chat_id b"
    using assms len a(2) b(2) by (simp_all add: sessions_used_def)
  have main: "sessions_used calls ! i = sessions_used calls ! j \<longleftrightarrow> ?ki = ?kj"
  proof
    assume "sessions_used calls ! i = sessions_used calls ! j"
    with ids have "chat_id a = chat_id b" by simp
    with a(1) b(1) show "?ki = ?kj" by (rule inj)
  next
    assume "?ki = ?kj"
    with a(1) b(1) have "a = b" by simp
    with ids show "sessions_used calls ! i = sessions_used calls ! j" by simp
  qed
  have same: "call_lang (calls ! i) = call_lang (calls ! j)
            \<and> take 20 (call_context (calls ! i)) = take 20 (call_context (calls ! j))
          \<longrightarrow> sessions_used calls ! i = sessions_used calls ! j"
    unfolding main by (simp add: historyKey_def)
  have differ: "length (call_lang (calls ! i)) = length (call_lang (calls ! j))
            \<and> (call_lang (calls ! i) \<noteq> call_lang (calls ! j)
                \<or> take 20 (call_context (calls ! i)) \<noteq> take 20 (call_context (calls ! j)))
          \<longrightarrow> sessions_used calls ! i \<noteq> sessions_used calls ! j"
    unfolding main using historyKey_eq_iff by blast
  from main same differ show ?thesis by blast
qed

text \<open>
  Three calls: the second has the language of the first and a context that agrees with it
  on 20 characters, the third has another language.
\<close>

theorem chat_sessions_keyed_by_language_and_prefix_witness:
  "sessions_used
     [\<lparr>call_prompt = ''hello'', call_history = [],
       call_context = ''Student dashboard for Asha'', call_lang = ''en-IN'',
       call_outcome = Inr \<lparr>response_text = Some ''hi''\<rparr>\<rparr>,
      \<lparr>call_prompt = ''hello again'', call_history = [],
       call_context = ''Student dashboard for Ravi'', call_lang = ''en-IN'',
       call_outcome = Inl (RemoteError ''network'')\<rparr>,
      \<lparr>call_prompt = ''namaste'', call_history = [],
       call_context = ''Student dashboard for Asha'', call_lang = ''hi-IN'',
       call_outcome = Inr \<lparr>response_text = None\<rparr>\<rparr>] ! 0
   = sessions_used
     [\<lparr>call_prompt = ''hello'', call_history = [],
       call_context = ''Student dashboard for Asha'', call_lang = ''en-IN'',
       call_outcome = Inr \<lparr>response_text = Some ''hi''\<rparr>\<rparr>,
      \<lparr>call_prompt = ''hello again'', call_history = [],
       call_context = ''Student dashboard for Ravi'', call_lang = ''en-IN'',
       call_outcome = Inl (RemoteError ''network'')\<rparr>,
      \<lparr>call_prompt = ''namaste'', call_history = [],
       call_context = ''Student dashboard for Asha'', call_lang = ''hi-IN'',
       call_outcome = Inr \<lparr>response_text = None\<rparr>\<rparr>] ! 1
   \<and> sessions_used
     [\<lparr>call_prompt = ''hello'', call_history = [],
       call_context = ''Student dashboard for Asha'', call_lang = ''en-IN'',
       call_outcome = Inr \<lparr>response_text = Some ''hi''\<rparr>\<rparr>,
      \<lparr>call_prompt = ''hello again'', call_history = [],
       call_context = ''Student dashboard for Ravi'', call_lang = ''en-IN'',
       call_outcome = Inl (RemoteError ''network'')\<rparr>,
      \<lparr>call_prompt = ''namaste'', call_history = [],
       call_context = ''Student dashboard for Asha'', call_lang = ''hi-IN'',
       call_outcome = Inr \<lparr>response_text = None\<rparr>\<rparr>] ! 0
   \<noteq> sessions_used
     [\<lparr>call_prompt = ''hello'', call_history = [],
       call_context = ''Student dashboard for Asha'', call_lang = ''en-IN'',
       call_outcome = Inr \<lparr>response_text = Some ''hi''\<rparr>\<rparr>,
      \<lparr>call_prompt = ''hello again'', call_history = [],
       call_context = ''Student dashboard for Ravi'', call_lang = ''en-IN'',
       call_outcome = Inl (RemoteError ''network'')\<rparr>,
      \<lparr>call_prompt = ''namaste'', call_history = [],
       call_context = ''Student dashboard for Asha'', call_lang = ''hi-IN'',
       call_outcome = Inr \<lparr>response_text = None\<rparr>\<rparr>] ! 2"
  using chat_sessions_keyed_by_language_and_prefix
    [of 0 "[\<lparr>call_prompt = ''hello'', call_history = [],
       call_context = ''Student dashboard for Asha'', call_lang = ''en-IN'',
       call_outcome = Inr \<lparr>response_text = Some ''hi''\<rparr>\<rparr>,
      \<lparr>call_prompt = ''hello again'', call_history = [],
       call_context = ''Student dashboard for Ravi'', call_lang = ''en-IN'',
       call_outcome = Inl (RemoteError ''network'')\<rparr>,
      \<lparr>call_prompt = ''namaste'', call_history = [],
       call_context = ''Student dashboard for Asha'', call_lang = ''hi-IN'',
       call_outcome = Inr \<lparr>response_text = None\<rparr>\<rparr>]" 1]
    chat_sessions_keyed_by_language_and_prefix
    [of 0 "[\<lparr>call_prompt = ''hello'', call_history = [],
       call_context = ''Student dashboard for Asha'', call_lang = ''en-IN'',
       call_outcome = Inr \<lparr>response_text = Some ''hi''\<rparr>\<rparr>,
      \<lparr>call_prompt = ''hello again'', call_history = [],
       call_context = ''Student dashboard for Ravi'', call_lang = ''en-IN'',
       call_outcome = Inl (RemoteError ''network'')\<rparr>,
      \<lparr>call_prompt = ''namaste'', call_history = [],
       call_context = ''Student dashboard for Asha'', call_lang = ''hi-IN'',
       call_outcome = Inr \<lparr>response_text = None\<rparr>\<rparr>]" 2]
  by (simp add: historyKey_def)

text \<open>
  Two calls in the same language whose contexts differ (after the twentieth character):
  the second call uses the session of the first, number 0.
\<close>

theorem chat_context_suffix_counterexample:
  "sessions_used
     [\<lparr>call_prompt = ''hello'', call_history = [],
       call_context = ''Student dashboard for Asha'', call_lang = ''en-IN'',
       call_outcome = Inr \<lparr>response_text = Some ''hi''\<rparr>\<rparr>,
      \<lparr>call_prompt = ''hello again'', call_history = [],
       call_context = ''Student dashboard for Ravi'', call_lang = ''en-IN'',
       call_outcome = Inr \<lparr>response_text = Some ''hi''\<rparr>\<rparr>] = [0, 0]
   \<and> ''Student dashboard for Asha'' \<noteq> ''Student dashboard for Ravi''"
  by (simp add: sessions_used_def run_chat_def chat_step_def chat_call_result_def getChatbotResponse_def
        chat_session_def initial_chat_service_def historyKey_def Let_def)


end
